theory Spec2Isabelle
  imports Main "HOL-Library.Sublist"
begin

section \<open>The unit-notebook GPU pipeline definition\<close>

text \<open>
  The pipeline file is a YAML document. It is embedded as the tree a YAML reader builds
  from it: scalars, sequences, and mappings that keep the order of their keys.
\<close>

datatype yaml = Scalar string | Seq "yaml list" | Mapping "(string \<times> yaml) list"

definition pipeline :: yaml where
  \<open>pipeline = Mapping
     [(''pr'', Seq [Scalar ''main'', Scalar ''staging'']),
      (''trigger'', Seq [Scalar ''staging'', Scalar ''main'']),
      (''variables'', Seq [Mapping [(''group'', Scalar ''LinuxAgentPool'')]]),
      (''extends'', Mapping
         [(''template'', Scalar ''dsvm_linux_template.yml''),
          (''parameters'', Mapping
             [(''test_types'', Seq [Scalar ''unit'']),
              (''task_name'', Scalar ''Test - Unit Notebook Linux GPU''),
              (''conda_env'', Scalar ''unit_notebook_linux_gpu''),
              (''conda_opts'', Scalar ''python=3.6 cudatoolkit=10.0 "cudnn>=7.6"''),
              (''pip_opts'',
                 Scalar ''[gpu,examples]  -f https://download.pytorch.org/whl/cu100/torch_stable.html''),
              (''pytest_markers'', Scalar ''notebooks and not spark and gpu'')])])]\<close>

text \<open>Reading the document: the keys of a mapping, the value at a key, and every key that occurs anywhere in the tree.\<close>

fun keys :: "yaml \<Rightarrow> string list" where
  "keys (Mapping kvs) = map fst kvs"
| "keys _ = []"

fun get :: "yaml \<Rightarrow> string \<Rightarrow> yaml option" where
  "get (Mapping kvs) k = map_of kvs k"
| "get _ k = None"

fun all_keys :: "yaml \<Rightarrow> string list" where
  "all_keys (Scalar s) = []"
| "all_keys (Seq ys) = concat (map all_keys ys)"
| "all_keys (Mapping kvs) = concat (map (\<lambda>(k, v). k # all_keys v) kvs)"

definition at :: "yaml \<Rightarrow> string list \<Rightarrow> yaml option" where
  "at y path = fold (\<lambda>k r. case r of None \<Rightarrow> None | Some v \<Rightarrow> get v k) path (Some y)"

section \<open>Python values, exceptions and paths\<close>

text \<open>
  The values the code handles: \<open>None\<close>, booleans, integers, float literals (kept as
  written), strings, lists, and objects of the SDK and of \<open>reco_utils\<close>, which are opaque
  and stand as handles. \<open>PItem v i\<close> is item \<open>i\<close> of the value \<open>v\<close> (the unpacking of a
  returned pair), \<open>PAttr v a\<close> the attribute \<open>a\<close> of the object \<open>v\<close>.
\<close>

datatype pyval =
    PNone | PBool bool | PInt int | PFloat string | PStr string | PList "pyval list"
  | PObj nat | PItem pyval nat | PAttr pyval string

text \<open>
  Exceptions. \<open>SystemExit\<close> and \<open>KeyboardInterrupt\<close> derive from \<open>BaseException\<close> only;
  every other exception is named by its class.
\<close>

datatype exn = SystemExit int | KeyboardInterrupt | Exception string

text \<open>\<open>os.path.join\<close> on POSIX, for two components: an absolute second component
  replaces the first, otherwise the two are joined with exactly one separator.\<close>

definition os_path_join :: "string \<Rightarrow> string \<Rightarrow> string" where
  "os_path_join a b =
     (if b \<noteq> [] \<and> hd b = CHR ''/'' then b
      else if a = [] \<or> last a = CHR ''/'' then a @ b
      else a @ ''/'' @ b)"

text \<open>A path lies inside a directory when it is the directory or starts with the
  directory and a separator.\<close>

definition inside :: "string \<Rightarrow> string \<Rightarrow> bool" where
  "inside d p \<longleftrightarrow> p = d \<or> prefix (os_path_join d []) p"

fun strip_prefix :: "string \<Rightarrow> string \<Rightarrow> string option" where
  "strip_prefix [] ys = Some ys"
| "strip_prefix (x # xs) [] = None"
| "strip_prefix (x # xs) (y # ys) = (if x = y then strip_prefix xs ys else None)"

text \<open>
  \<open>str\<close> of an integer. \<open>py_int\<close> reads a decimal numeral with an optional sign; Python's
  \<open>int\<close> reads more (surrounding blanks, underscores between digits), so wherever the
  code converts a string that comes from outside, the conversion is a parameter and
  \<open>py_int\<close> is one instance of it.
\<close>

fun str_nat :: "nat \<Rightarrow> string" where
  "str_nat n = (if n < 10 then [''0123456789'' ! n] else str_nat (n div 10) @ [''0123456789'' ! (n mod 10)])"

declare str_nat.simps [simp del]

definition str_int :: "int \<Rightarrow> string" where
  "str_int i = (if i < 0 then CHR ''-'' # str_nat (nat (- i)) else str_nat (nat i))"

definition digit_of :: "char \<Rightarrow> nat option" where
  "digit_of c = map_of (zip ''0123456789'' [0..<10]) c"

fun nat_of_digits :: "string \<Rightarrow> nat \<Rightarrow> nat option" where
  "nat_of_digits [] acc = Some acc"
| "nat_of_digits (c # cs) acc =
     (case digit_of c of None \<Rightarrow> None | Some d \<Rightarrow> nat_of_digits cs (10 * acc + d))"

definition py_int :: "string \<Rightarrow> int option" where
  "py_int s =
     (case s of
        [] \<Rightarrow> None
      | c # cs \<Rightarrow>
          if c = CHR ''-'' then (if cs = [] then None else map_option (\<lambda>n. - int n) (nat_of_digits cs 0))
          else if c = CHR ''+'' then (if cs = [] then None else map_option int (nat_of_digits cs 0))
          else map_option int (nat_of_digits s 0))"

section \<open>The command line of the generated training script\<close>

subsection \<open>The declared arguments\<close>

text \<open>
  \<open>train.py\<close> declares its command line with four \<open>add_argument\<close> calls. An argument
  is recorded with the option string, the conversion (\<open>type=\<close>), the attribute it is
  stored in (\<open>dest=\<close>), the default (\<open>None\<close> when the call gives none) and the help
  text. \<open>declared\<close> lists the four in the order of the calls.
\<close>

datatype argtype = T_str | T_int

record argument =
  flag :: string
  type_fn :: argtype
  dest :: string
  default_v :: pyval
  help_text :: string

definition declared :: "argument list" where
  "declared =
     [\<lparr>flag = ''--data-folder'', type_fn = T_str, dest = ''data_folder'', default_v = PNone,
       help_text = ''data folder mounting point''\<rparr>,
      \<lparr>flag = ''--data-file'', type_fn = T_str, dest = ''data_file'', default_v = PNone,
       help_text = ''data file name''\<rparr>,
      \<lparr>flag = ''--top-k'', type_fn = T_int, dest = ''top_k'', default_v = PInt 10,
       help_text = ''top k items to recommend''\<rparr>,
      \<lparr>flag = ''--data-size'', type_fn = T_str, dest = ''data_size'', default_v = PInt 10,
       help_text = ''Movielens data size: 100k, 1m, 10m, or 20m''\<rparr>]"

subsection \<open>\<open>argparse\<close>: how a command line is parsed\<close>

text \<open>
  \<open>ArgumentParser.parse_args\<close> as the standard library of Python 3.6 (the version the
  notebook names) runs it for a parser built with \<open>ArgumentParser()\<close> and
  \<open>add_argument\<close> calls of the form above: options only, each taking one value, prefix
  character \<open>-\<close>, abbreviations allowed, and the help option \<open>-h\<close>, \<open>--help\<close> that every
  parser adds. The parser exits with status 2 on an error and with status 0 after
  printing the help.

  The option strings of a parser and the action behind each.
\<close>

type_synonym namespace = "string \<rightharpoonup> pyval"

datatype action = Help | Store argument

definition option_strings :: "argument list \<Rightarrow> (string \<times> action) list" where
  "option_strings ps = [(''-h'', Help), (''--help'', Help)] @ map (\<lambda>a. (flag a, Store a)) ps"

text \<open>
  The namespace starts with the default of every argument, as given: a default is not
  converted here. (When two arguments share a \<open>dest\<close>, the first one's default stays.)
\<close>

fun defaults :: "argument list \<Rightarrow> namespace" where
  "defaults [] = Map.empty"
| "defaults (a # as) = (defaults as)(dest a \<mapsto> default_v a)"

text \<open>
  A string that looks like a negative number (a dash and digits, or a dash, digits or
  none, a dot and digits; a final newline is allowed) is taken as a value, not as an
  option, as long as no option string of the parser looks like one.
\<close>

definition digit :: "char \<Rightarrow> bool" where
  "digit c \<longleftrightarrow> c \<in> set ''0123456789''"

definition negative_number :: "string \<Rightarrow> bool" where
  "negative_number s =
     (case (if s \<noteq> [] \<and> last s = CHR 0x0A then butlast s else s) of
        [] \<Rightarrow> False
      | c # r \<Rightarrow>
          c = CHR ''-'' \<and>
          ((r \<noteq> [] \<and> list_all digit r) \<or>
           (list_all digit (takeWhile (\<lambda>x. x \<noteq> CHR ''.'') r) \<and>
            dropWhile (\<lambda>x. x \<noteq> CHR ''.'') r \<noteq> [] \<and>
            tl (dropWhile (\<lambda>x. x \<noteq> CHR ''.'') r) \<noteq> [] \<and>
            list_all digit (tl (dropWhile (\<lambda>x. x \<noteq> CHR ''.'') r)))))"

text \<open>
  Every string of the command line is classified first. \<open>Positional\<close>: not an option
  (it can be the value of the option before it). \<open>Marker\<close>: the first \<open>--\<close>, after which
  every string is positional. \<open>Optional act opt arg\<close>: an option, with the action it
  resolves to (\<open>None\<close> when it resolves to no declared option), the option string, and
  the explicit argument that came with it (\<open>--opt=value\<close>, or the rest of a
  single-dash string).

  \<open>split_eq\<close> splits at the first \<open>=\<close>. \<open>get_option_tuples\<close> finds the options a
  string abbreviates: for a string that starts with two dashes, the options that start
  with it (up to its \<open>=\<close>); for a string with one dash, the option that is its first two
  characters, the rest being the explicit argument, and the options that start with it.
\<close>

definition split_eq :: "string \<Rightarrow> string \<times> string" where
  "split_eq s = (takeWhile (\<lambda>c. c \<noteq> CHR ''='') s, tl (dropWhile (\<lambda>c. c \<noteq> CHR ''='') s))"

datatype kind = Positional | Marker | Optional "action option" string "string option"

definition get_option_tuples :: "(string \<times> action) list \<Rightarrow> string \<Rightarrow> kind list" where
  "get_option_tuples opts s =
     (if s ! 1 = CHR ''-'' then
        map (\<lambda>(opt, act). Optional (Some act) opt
                (if CHR ''='' \<in> set s then Some (snd (split_eq s)) else None))
          (filter (\<lambda>(opt, act). prefix (if CHR ''='' \<in> set s then fst (split_eq s) else s) opt) opts)
      else
        concat (map (\<lambda>(opt, act).
           if opt = take 2 s then [Optional (Some act) opt (Some (drop 2 s))]
           else if prefix s opt then [Optional (Some act) opt None]
           else []) opts))"

text \<open>
  \<open>parse_optional\<close>, in the order of the library: a string that is empty or does not
  start with \<open>-\<close> is positional; an exact option string is that option; a single \<open>-\<close> is
  positional; \<open>opt=value\<close> with an exact option string is that option with the value;
  an unambiguous abbreviation is the option it abbreviates, an ambiguous one is an
  error; a negative number and a string with a blank are positional; anything else is
  an option that is not declared.
\<close>

definition parse_optional :: "(string \<times> action) list \<Rightarrow> string \<Rightarrow> exn + kind" where
  "parse_optional opts s =
     (if s = [] \<or> hd s \<noteq> CHR ''-'' then Inr Positional
      else case map_of opts s of
        Some act \<Rightarrow> Inr (Optional (Some act) s None)
      | None \<Rightarrow>
          if length s = 1 then Inr Positional
          else case (if CHR ''='' \<in> set s then map_of opts (fst (split_eq s)) else None) of
            Some act \<Rightarrow> Inr (Optional (Some act) (fst (split_eq s)) (Some (snd (split_eq s))))
          | None \<Rightarrow>
              (case get_option_tuples opts s of
                 [] \<Rightarrow>
                   if negative_number s \<and> \<not> list_ex (\<lambda>(opt, act). negative_number opt) opts
                   then Inr Positional
                   else if CHR '' '' \<in> set s then Inr Positional
                   else Inr (Optional None s None)
               | [k] \<Rightarrow> Inr k
               | k # k' # ks \<Rightarrow> Inl (SystemExit 2)))"

fun scan :: "(string \<times> action) list \<Rightarrow> string list \<Rightarrow> exn + kind list" where
  "scan opts [] = Inr []"
| "scan opts (s # rest) =
     (if s = ''--'' then Inr (Marker # map (\<lambda>x. Positional) rest)
      else case parse_optional opts s of
        Inl e \<Rightarrow> Inl e
      | Inr k \<Rightarrow> (case scan opts rest of Inl e \<Rightarrow> Inl e | Inr ks \<Rightarrow> Inr (k # ks)))"

text \<open>
  The value of an option. The conversion \<open>type=\<close> is applied to the string; \<open>str\<close> keeps
  it, \<open>int\<close> (the parameter \<open>I\<close>) may refuse it, which is an error. An explicit argument
  that is \<open>--\<close> is dropped before the conversion and leaves the empty list as the value.
\<close>

definition convert :: "(string \<Rightarrow> int option) \<Rightarrow> argtype \<Rightarrow> string \<Rightarrow> exn + pyval" where
  "convert I ty v =
     (case ty of
        T_str \<Rightarrow> Inr (PStr v)
      | T_int \<Rightarrow> (case I v of None \<Rightarrow> Inl (SystemExit 2) | Some i \<Rightarrow> Inr (PInt i)))"

definition get_values :: "(string \<Rightarrow> int option) \<Rightarrow> argument \<Rightarrow> string \<Rightarrow> exn + pyval" where
  "get_values I a v = (if v = ''--'' then Inr (PList []) else convert I (type_fn a) v)"

text \<open>
  An option that came with an explicit argument. An option that takes a value takes the
  explicit argument. The help option takes none: behind two dashes the explicit
  argument is an error; behind one dash its first character is read as the next
  single-dash option (\<open>-hx\<close> as \<open>-h -x\<close>), which must be declared, and an empty explicit
  argument (\<open>-h=\<close>) fails on its missing first character. The result is the list of
  actions that take no value and come first, then the last action with its option
  string and the explicit argument left for it.
\<close>

fun expand ::
  "(string \<times> action) list \<Rightarrow> action \<Rightarrow> string \<Rightarrow> string \<Rightarrow>
   exn + (action list \<times> action \<times> string \<times> string option)" where
  "expand opts (Store a) opt x = Inr ([], Store a, opt, Some x)"
| "expand opts Help opt [] =
     (if opt ! 1 = CHR ''-'' then Inl (SystemExit 2) else Inl (Exception ''IndexError''))"
| "expand opts Help opt (c # x) =
     (if opt ! 1 = CHR ''-'' then Inl (SystemExit 2)
      else case map_of opts [hd opt, c] of
        None \<Rightarrow> Inl (SystemExit 2)
      | Some act \<Rightarrow>
          if x = [] then Inr ([Help], act, [hd opt, c], None)
          else (case expand opts act [hd opt, c] x of
                  Inl e \<Rightarrow> Inl e
                | Inr (pending, act', opt', x') \<Rightarrow> Inr (Help # pending, act', opt', x')))"

text \<open>
  The strings are consumed from left to right. A positional string that no option took,
  the marker, and an option that is not declared are set aside as unrecognised. A
  declared option that takes a value needs the explicit argument or, without one, the
  next string, which must be positional (``expected one argument'' otherwise); the
  converted value is stored at the option's \<open>dest\<close>, a later occurrence overwriting an
  earlier one, and the argument is remembered as seen. The help action prints the help
  and exits with status 0.
\<close>

fun consume ::
  "(string \<Rightarrow> int option) \<Rightarrow> (string \<times> action) list \<Rightarrow> (string \<times> kind) list \<Rightarrow>
   namespace \<Rightarrow> argument list \<Rightarrow> string list \<Rightarrow> exn + (namespace \<times> argument list \<times> string list)" where
  "consume I opts [] ns seen extras = Inr (ns, seen, extras)"
| "consume I opts ((s, Positional) # rest) ns seen extras = consume I opts rest ns seen (extras @ [s])"
| "consume I opts ((s, Marker) # rest) ns seen extras = consume I opts rest ns seen (extras @ [s])"
| "consume I opts ((s, Optional None opt x) # rest) ns seen extras =
     consume I opts rest ns seen (extras @ [s])"
| "consume I opts ((s, Optional (Some act) opt None) # rest) ns seen extras =
     (case act of
        Help \<Rightarrow> Inl (SystemExit 0)
      | Store a \<Rightarrow>
          (case rest of
             (v, Positional) # rest' \<Rightarrow>
               (case get_values I a v of
                  Inl e \<Rightarrow> Inl e
                | Inr val \<Rightarrow> consume I opts rest' (ns(dest a \<mapsto> val)) (a # seen) extras)
           | _ \<Rightarrow> Inl (SystemExit 2)))"
| "consume I opts ((s, Optional (Some act) opt (Some x)) # rest) ns seen extras =
     (case expand opts act opt x of
        Inl e \<Rightarrow> Inl e
      | Inr (pending, act', opt', x') \<Rightarrow>
          (case act' of
             Help \<Rightarrow> Inl (SystemExit 0)
           | Store a \<Rightarrow>
               (case x' of
                  Some v \<Rightarrow>
                    if pending \<noteq> [] then Inl (SystemExit 0)
                    else (case get_values I a v of
                            Inl e \<Rightarrow> Inl e
                          | Inr val \<Rightarrow> consume I opts rest (ns(dest a \<mapsto> val)) (a # seen) extras)
                | None \<Rightarrow>
                    (case rest of
                       (v, Positional) # rest' \<Rightarrow> Inl (SystemExit 0)
                     | _ \<Rightarrow> Inl (SystemExit 2)))))"

text \<open>
  At the end, the default of an argument that was not seen is converted when it is a
  string; a default that is not a string stays as it is. Strings that were set aside
  are an error (``unrecognized arguments'').
\<close>

fun convert_defaults ::
  "(string \<Rightarrow> int option) \<Rightarrow> argument list \<Rightarrow> argument list \<Rightarrow> namespace \<Rightarrow> exn + namespace" where
  "convert_defaults I [] seen ns = Inr ns"
| "convert_defaults I (a # as) seen ns =
     (case default_v a of
        PStr d \<Rightarrow>
          (if a \<notin> set seen \<and> ns (dest a) = Some (PStr d) then
             (case convert I (type_fn a) d of
                Inl e \<Rightarrow> Inl e
              | Inr v \<Rightarrow> convert_defaults I as seen (ns(dest a \<mapsto> v)))
           else convert_defaults I as seen ns)
      | _ \<Rightarrow> convert_defaults I as seen ns)"

definition parse_args :: "(string \<Rightarrow> int option) \<Rightarrow> argument list \<Rightarrow> string list \<Rightarrow> exn + namespace" where
  "parse_args I ps argv =
     (case scan (option_strings ps) argv of
        Inl e \<Rightarrow> Inl e
      | Inr ks \<Rightarrow>
          (case consume I (option_strings ps) (zip argv ks) (defaults ps) [] [] of
             Inl e \<Rightarrow> Inl e
           | Inr (ns, seen, extras) \<Rightarrow>
               (case convert_defaults I ps seen ns of
                  Inl e \<Rightarrow> Inl e
                | Inr ns' \<Rightarrow> if extras \<noteq> [] then Inl (SystemExit 2) else Inr ns')))"

text \<open>Reading an attribute of the namespace.\<close>

definition attr :: "namespace \<Rightarrow> string \<Rightarrow> pyval" where
  "attr ns a = (case ns a of Some v \<Rightarrow> v | None \<Rightarrow> PNone)"

subsection \<open>The command line of the remote run\<close>

text \<open>
  The estimator turns \<open>script_params\<close> into the arguments of the entry script: every key
  followed by its value as a string, and a datastore reference replaced by the path the
  datastore is mounted at on the compute target.
\<close>

definition render :: "string \<Rightarrow> pyval \<Rightarrow> string" where
  "render mount v =
     (case v of
        PStr s \<Rightarrow> s
      | PInt i \<Rightarrow> str_int i
      | PBool b \<Rightarrow> (if b then ''True'' else ''False'')
      | PNone \<Rightarrow> ''None''
      | PFloat s \<Rightarrow> s
      | PObj h \<Rightarrow> mount
      | _ \<Rightarrow> [])"

definition arguments_of :: "string \<Rightarrow> (string \<times> pyval) list \<Rightarrow> string list" where
  "arguments_of mount params = concat (map (\<lambda>(k, v). [k, render mount v]) params)"

section \<open>Calls, events and processes\<close>

subsection \<open>Calls and the environment\<close>

text \<open>
  Every call the notebook and the script make outside their own expressions: into the
  Azure ML SDK, into \<open>reco_utils\<close>, into the standard library, and the cell magic
  \<open>%%writefile\<close>. The arguments are the ones the source passes, in its order; a method
  has its receiver first. The first group are the calls of the notebook, the second the
  calls that only \<open>train.py\<close> makes.
\<close>

datatype call =
    import_modules "string list"
  | sys_path_append string
  | print string
  | Workspace_create string string string string bool
  | TemporaryDirectory
  | load_pandas_df string "string list"
  | to_pickle pyval string
  | get_default_datastore pyval
  | upload pyval string string bool bool
  | ComputeTarget pyval string
  | provisioning_configuration string int int
  | ComputeTarget_create pyval string pyval
  | wait_for_completion pyval bool pyval int
  | makedirs string bool
  | writefile string
  | rmtree string
  | copytree string string
  | as_mount pyval
  | Estimator string "(string \<times> pyval) list" pyval string "string list" "string list"
  | Experiment pyval string
  | submit pyval pyval
  | RunDetails_show pyval
  | display pyval
  | get_metrics pyval
  | cleanup string
  | basicConfig string string
  | Run_get_context
  | ArgumentParser
  | add_argument "argument list" argument
  | parser_parse_args "argument list" "string list"
  | path_join pyval pyval
  | read_pickle string
  | run_log pyval string pyval
  | python_stratified_split pyval pyval string string int
  | SARSingleNode string int pyval bool "(string \<times> string) list"
  | Timer
  | context_enter pyval
  | context_exit pyval "exn option"
  | fit pyval pyval
  | recommend_k_items pyval pyval bool
  | map_at_k pyval pyval string string string string string pyval
  | ndcg_at_k pyval pyval string string string string string pyval
  | precision_at_k pyval pyval string string string string string pyval
  | recall_at_k pyval pyval string string string string string pyval
  | joblib_dump pyval string
  | upload_file pyval string string

text \<open>An event is a call with its outcome: the exception it raised or the value it
  returned. The trace is the list of events so far.\<close>

type_synonym event = "call \<times> (exn + pyval)"

text \<open>
  The environment is everything outside the code: whether a call raises (given what
  happened before), which object a call returns, the local files that appear as a side
  effect while a call runs (the bytecode caches of the modules an import compiles, the
  files a library keeps), whether the \<open>__exit__\<close> of a context manager asks to suppress
  the exception it is given, the builtin \<open>int\<close> on strings, the path the operating
  system picks for the temporary directory, and the version string of the installed
  SDK.
\<close>

record env =
  raises :: "event list \<Rightarrow> call \<Rightarrow> exn option"
  returns :: "event list \<Rightarrow> call \<Rightarrow> nat"
  writes :: "event list \<Rightarrow> call \<Rightarrow> string list"
  suppresses :: "event list \<Rightarrow> call \<Rightarrow> bool"
  int_of :: "string \<Rightarrow> int option"
  mkdtemp :: string
  VERSION :: string

subsection \<open>A process: its trace, the local files, the datastore\<close>

text \<open>
  The notebook's kernel and the remote run of \<open>train.py\<close> are two processes. Each has
  its trace, its local file system, and the files of the workspace's datastore; the
  globals of the code extend this record.
\<close>

datatype node = File | Dir

record proc =
  trace :: "event list"
  fs :: "string \<rightharpoonup> node"
  blobs :: "string \<Rightarrow> bool"

definition str_of :: "pyval \<Rightarrow> string" where
  "str_of v = (case v of PStr s \<Rightarrow> s | _ \<Rightarrow> [])"

text \<open>
  The failures that the arguments and the local files decide: \<open>copytree\<close> refuses an
  existing destination, \<open>rmtree\<close> a missing directory, \<open>makedirs\<close> an existing one unless
  \<open>exist_ok\<close>; \<open>add_argument\<close> refuses an option string the parser already has;
  \<open>parse_args\<close> exits as the section above says; \<open>os.path.join\<close> refuses a component
  that is not a string. Any other failure of a call is the environment's.
\<close>

definition local_error :: "env \<Rightarrow> (string \<rightharpoonup> node) \<Rightarrow> call \<Rightarrow> exn option" where
  "local_error E f c =
     (case c of
        copytree src dst \<Rightarrow> (if f dst \<noteq> None then Some (Exception ''FileExistsError'') else None)
      | rmtree p \<Rightarrow> (if f p = None then Some (Exception ''FileNotFoundError'') else None)
      | makedirs p exist_ok \<Rightarrow>
          (if f p \<noteq> None \<and> \<not> exist_ok then Some (Exception ''FileExistsError'') else None)
      | add_argument ps a \<Rightarrow>
          (if flag a \<in> set (map fst (option_strings ps)) then Some (Exception ''ArgumentError'')
           else None)
      | parser_parse_args ps argv \<Rightarrow>
          (case parse_args (int_of E) ps argv of Inl e \<Rightarrow> Some e | Inr ns \<Rightarrow> None)
      | path_join a b \<Rightarrow>
          (case (a, b) of (PStr x, PStr y) \<Rightarrow> None | _ \<Rightarrow> Some (Exception ''TypeError''))
      | _ \<Rightarrow> None)"

text \<open>What the file operations do to the local file system.\<close>

definition remove_tree :: "string \<Rightarrow> (string \<rightharpoonup> node) \<Rightarrow> (string \<rightharpoonup> node)" where
  "remove_tree d f = (\<lambda>q. if inside d q then None else f q)"

definition copy_tree :: "string \<Rightarrow> string \<Rightarrow> (string \<rightharpoonup> node) \<Rightarrow> (string \<rightharpoonup> node)" where
  "copy_tree src dst f =
     (\<lambda>q. if q = dst then Some Dir
          else case strip_prefix (os_path_join dst []) q of
            Some r \<Rightarrow> f (os_path_join src [] @ r)
          | None \<Rightarrow> f q)"

definition file_effect :: "call \<Rightarrow> pyval \<Rightarrow> (string \<rightharpoonup> node) \<Rightarrow> (string \<rightharpoonup> node)" where
  "file_effect c v f =
     (case c of
        TemporaryDirectory \<Rightarrow> f(str_of v \<mapsto> Dir)
      | to_pickle d p \<Rightarrow> f(p \<mapsto> File)
      | makedirs p exist_ok \<Rightarrow> f(p \<mapsto> Dir)
      | writefile p \<Rightarrow> f(p \<mapsto> File)
      | rmtree p \<Rightarrow> remove_tree p f
      | copytree src dst \<Rightarrow> copy_tree src dst f
      | cleanup p \<Rightarrow> remove_tree p f
      | joblib_dump m p \<Rightarrow> f(p \<mapsto> File)
      | _ \<Rightarrow> f)"

text \<open>
  The files that appear while a call runs, whatever its outcome: the source does not
  say which, the environment does.
\<close>

definition side_effect :: "env \<Rightarrow> event list \<Rightarrow> call \<Rightarrow> (string \<rightharpoonup> node) \<Rightarrow> (string \<rightharpoonup> node)" where
  "side_effect E h c f = fold (\<lambda>p g. g(p \<mapsto> File)) (writes E h c) f"

text \<open>\<open>upload\<close> puts every file below \<open>src_dir\<close> on the datastore, at \<open>target_path\<close>
  followed by the file's path relative to \<open>src_dir\<close>.\<close>

definition blob_effect :: "call \<Rightarrow> (string \<rightharpoonup> node) \<Rightarrow> (string \<Rightarrow> bool) \<Rightarrow> (string \<Rightarrow> bool)" where
  "blob_effect c f b =
     (case c of
        upload d src target overwrite show_progress \<Rightarrow>
          (\<lambda>q. b q \<or> (case strip_prefix (os_path_join target []) q of
                         Some r \<Rightarrow> f (os_path_join src [] @ r) = Some File
                       | None \<Rightarrow> False))
      | _ \<Rightarrow> b)"

text \<open>
  What a call returns. \<open>TemporaryDirectory\<close> returns the handle of the directory it
  made, which stands here as the directory's name; \<open>os.path.join\<close> returns the joined
  path; \<open>__exit__\<close> returns whether to suppress the exception; every other call returns
  an object.
\<close>

definition result :: "env \<Rightarrow> event list \<Rightarrow> call \<Rightarrow> pyval" where
  "result E h c =
     (case c of
        TemporaryDirectory \<Rightarrow> PStr (mkdtemp E)
      | path_join a b \<Rightarrow> PStr (os_path_join (str_of a) (str_of b))
      | context_exit m x \<Rightarrow> PBool (suppresses E h c)
      | _ \<Rightarrow> PObj (returns E h c))"

definition failure :: "env \<Rightarrow> 'a proc_scheme \<Rightarrow> call \<Rightarrow> exn option" where
  "failure E s c = (case local_error E (fs s) c of Some e \<Rightarrow> Some e | None \<Rightarrow> raises E (trace s) c)"

definition failed :: "env \<Rightarrow> call \<Rightarrow> exn \<Rightarrow> 'a proc_scheme \<Rightarrow> 'a proc_scheme" where
  "failed E c e s =
     s\<lparr>trace := trace s @ [(c, Inl e)],
       fs := side_effect E (trace s) c (fs s)\<rparr>"

definition returned :: "env \<Rightarrow> call \<Rightarrow> pyval \<Rightarrow> 'a proc_scheme \<Rightarrow> 'a proc_scheme" where
  "returned E c v s =
     s\<lparr>trace := trace s @ [(c, Inr v)],
       fs := file_effect c v (side_effect E (trace s) c (fs s)),
       blobs := blob_effect c (fs s) (blobs s)\<rparr>"

definition perform :: "env \<Rightarrow> call \<Rightarrow> 'a proc_scheme \<Rightarrow> (exn + pyval) \<times> 'a proc_scheme" where
  "perform E c s =
     (case failure E s c of
        Some e \<Rightarrow> (Inl e, failed E c e s)
      | None \<Rightarrow> (Inr (result E (trace s) c), returned E c (result E (trace s) c) s))"

subsection \<open>Statements\<close>

text \<open>
  A statement runs in a state and ends normally (\<open>None\<close>) or with an exception; the state
  it leaves is kept in both cases, as the kernel of a notebook keeps its globals when a
  cell fails. \<open>exec\<close> is a statement that makes one call and stores the value returned,
  \<open>assign\<close> a statement that only computes, \<open>block\<close> a sequence of statements,
  \<open>try_except\<close> a \<open>try\<close> whose handler is a bare \<open>except:\<close>, \<open>if_then\<close> an \<open>if\<close> with
  no \<open>else\<close>.
\<close>

type_synonym 's statement = "'s \<Rightarrow> exn option \<times> 's"

definition exec ::
  "env \<Rightarrow> ('a proc_scheme \<Rightarrow> call) \<Rightarrow> (pyval \<Rightarrow> 'a proc_scheme \<Rightarrow> 'a proc_scheme) \<Rightarrow>
   'a proc_scheme statement" where
  "exec E c store s =
     (case perform E (c s) s of
        (Inl e, s') \<Rightarrow> (Some e, s')
      | (Inr v, s') \<Rightarrow> (None, store v s'))"

definition discard :: "pyval \<Rightarrow> 's \<Rightarrow> 's" where
  "discard v s = s"

definition assign :: "('s \<Rightarrow> 's) \<Rightarrow> 's statement" where
  "assign f s = (None, f s)"

fun block :: "'s statement list \<Rightarrow> 's statement" where
  "block [] s = (None, s)"
| "block (c # cs) s = (case c s of (Some e, s') \<Rightarrow> (Some e, s') | (None, s') \<Rightarrow> block cs s')"

declare block.simps [simp del]

definition try_except :: "'s statement \<Rightarrow> 's statement \<Rightarrow> 's statement" where
  "try_except body handler s =
     (case body s of (Some e, s') \<Rightarrow> handler s' | (None, s') \<Rightarrow> (None, s'))"

definition if_then :: "('s \<Rightarrow> bool) \<Rightarrow> 's statement \<Rightarrow> 's statement" where
  "if_then b c s = (if b s then c s else (None, s))"

text \<open>
  \<open>with mgr as x: body\<close>. The manager is made and entered, and what \<open>__enter__\<close> returns
  is bound. When the body ends normally, \<open>__exit__\<close> is called without an exception.
  When the body ends with an exception, \<open>__exit__\<close> is called with it, and the exception
  goes on unless \<open>__exit__\<close> returns true. An exception of \<open>__exit__\<close> itself replaces
  the one of the body.
\<close>

definition leaving :: "env \<Rightarrow> pyval \<Rightarrow> 'a proc_scheme statement \<Rightarrow> 'a proc_scheme statement" where
  "leaving E m body s =
     (case body s of
        (None, s') \<Rightarrow> exec E (\<lambda>x. context_exit m None) discard s'
      | (Some e, s') \<Rightarrow>
          (case perform E (context_exit m (Some e)) s' of
             (Inl e', s'') \<Rightarrow> (Some e', s'')
           | (Inr r, s'') \<Rightarrow> (if r = PBool True then (None, s'') else (Some e, s''))))"

definition with_as ::
  "env \<Rightarrow> ('a proc_scheme \<Rightarrow> call) \<Rightarrow> (pyval \<Rightarrow> 'a proc_scheme \<Rightarrow> 'a proc_scheme) \<Rightarrow>
   'a proc_scheme statement \<Rightarrow> 'a proc_scheme statement" where
  "with_as E mgr bind body s =
     (case perform E (mgr s) s of
        (Inl e, s') \<Rightarrow> (Some e, s')
      | (Inr m, s') \<Rightarrow> block [exec E (\<lambda>x. context_enter m) bind, leaving E m body] s')"

section \<open>The notebook\<close>

subsection \<open>The globals of the notebook\<close>

record nb = proc +
  sys_path :: "string list"
  TOP_K :: int
  MOVIELENS_DATA_SIZE :: string
  ws :: pyval
  tmp_dir :: string
  TARGET_DIR :: string
  data :: pyval
  data_file_name :: string
  ds :: pyval
  VM_SIZE :: string
  MIN_NODES :: int
  MAX_NODES :: int
  CLUSTER_NAME :: string
  compute_target :: pyval
  compute_config :: pyval
  SCRIPT_DIR :: string
  TRAIN_FILE :: string
  UTILS_DIR :: string
  script_params :: "(string \<times> pyval) list"
  est :: pyval
  EXPERIMENT_NAME :: string
  exp :: pyval
  run :: pyval
  metrics :: pyval

text \<open>\<open>sys_path\<close> is the module search path, which cell 2 extends. \<open>tmp_dir\<close> holds the
  name of the temporary directory (\<open>tmp_dir.name\<close>), the only part of the handle the
  notebook reads.\<close>

type_synonym stmt = "nb statement"

subsection \<open>The code cells\<close>

text \<open>The cells are numbered by their position in the notebook; the markdown cells
  between them have no code. Cell 2: the imports and the version banner.\<close>

definition cell_2 :: "env \<Rightarrow> stmt" where
  "cell_2 E = block
     [exec E (\<lambda>s. import_modules [''sys'']) discard,
      exec E (\<lambda>s. sys_path_append ''../../'') (\<lambda>v s. s\<lparr>sys_path := sys_path s @ [''../../'']\<rparr>),
      exec E (\<lambda>s. import_modules
         [''os'', ''shutil'', ''numpy'', ''tempfile'', ''azureml'', ''azureml.core'',
          ''azureml.core.compute'', ''azureml.train.estimator'', ''azureml.widgets'',
          ''reco_utils.dataset'']) discard,
      exec E (\<lambda>s. print (''azureml.core version: '' @ VERSION E)) discard]"

text \<open>
  Cell 3 is the cell tagged \<open>parameters\<close>: its two assignments are the parameters of
  the notebook, the number of items to recommend and the size of the dataset (``Select
  Movielens data size: 100k, 1m, 10m, or 20m''). As written they are 10 and 100k.
\<close>

definition cell_3 :: "int \<Rightarrow> string \<Rightarrow> stmt" where
  "cell_3 k z = block
     [assign (\<lambda>s. s\<lparr>TOP_K := k\<rparr>),
      assign (\<lambda>s. s\<lparr>MOVIELENS_DATA_SIZE := z\<rparr>)]"

text \<open>Cell 5: the workspace.\<close>

definition cell_5 :: "env \<Rightarrow> stmt" where
  "cell_5 E =
     exec E (\<lambda>s. Workspace_create ''<WORKSPACE_NAME>'' ''<SUBSCRIPTION_ID>'' ''<RESOURCE_GROUP>''
                   ''<WORKSPACE_REGION>'' True)
       (\<lambda>v s. s\<lparr>ws := v\<rparr>)"

text \<open>Cell 7: the temporary directory.\<close>

definition cell_7 :: "env \<Rightarrow> stmt" where
  "cell_7 E = exec E (\<lambda>s. TemporaryDirectory) (\<lambda>v s. s\<lparr>tmp_dir := str_of v\<rparr>)"

text \<open>Cell 9: download the dataset, pickle it into the temporary directory, upload the
  directory to the workspace's default datastore.\<close>

definition cell_9 :: "env \<Rightarrow> stmt" where
  "cell_9 E = block
     [assign (\<lambda>s. s\<lparr>TARGET_DIR := ''movielens''\<rparr>),
      exec E (\<lambda>s. load_pandas_df (MOVIELENS_DATA_SIZE s) [''UserId'', ''MovieId'', ''Rating'', ''Timestamp''])
        (\<lambda>v s. s\<lparr>data := v\<rparr>),
      assign (\<lambda>s. s\<lparr>data_file_name := ''movielens_'' @ MOVIELENS_DATA_SIZE s @ ''_data.pkl''\<rparr>),
      exec E (\<lambda>s. to_pickle (data s) (os_path_join (tmp_dir s) (data_file_name s))) discard,
      exec E (\<lambda>s. get_default_datastore (ws s)) (\<lambda>v s. s\<lparr>ds := v\<rparr>),
      exec E (\<lambda>s. upload (ds s) (tmp_dir s) (TARGET_DIR s) True False) discard]"

text \<open>Cell 11: find the compute cluster, or create it.\<close>

definition cell_11 :: "env \<Rightarrow> stmt" where
  "cell_11 E = block
     [assign (\<lambda>s. s\<lparr>VM_SIZE := ''STANDARD_D2_V2''\<rparr>),
      assign (\<lambda>s. s\<lparr>MIN_NODES := 0\<rparr>),
      assign (\<lambda>s. s\<lparr>MAX_NODES := 2\<rparr>),
      assign (\<lambda>s. s\<lparr>CLUSTER_NAME := ''cpucluster''\<rparr>),
      try_except
        (block
           [exec E (\<lambda>s. ComputeTarget (ws s) (CLUSTER_NAME s)) (\<lambda>v s. s\<lparr>compute_target := v\<rparr>),
            exec E (\<lambda>s. print ''Found existing compute target'') discard])
        (block
           [exec E (\<lambda>s. print ''Creating a new compute target...'') discard,
            exec E (\<lambda>s. provisioning_configuration (VM_SIZE s) (MIN_NODES s) (MAX_NODES s))
              (\<lambda>v s. s\<lparr>compute_config := v\<rparr>),
            exec E (\<lambda>s. ComputeTarget_create (ws s) (CLUSTER_NAME s) (compute_config s))
              (\<lambda>v s. s\<lparr>compute_target := v\<rparr>),
            exec E (\<lambda>s. wait_for_completion (compute_target s) True PNone 20) discard])]"

text \<open>Cells 13, 15 and 16: the script directory, \<open>train.py\<close> written by the cell magic
  (its text is the script of the next section), and the copy of \<open>reco_utils\<close>.\<close>

definition cell_13 :: "env \<Rightarrow> stmt" where
  "cell_13 E = block
     [assign (\<lambda>s. s\<lparr>SCRIPT_DIR := os_path_join (tmp_dir s) ''movielens-sar''\<rparr>),
      exec E (\<lambda>s. makedirs (SCRIPT_DIR s) True) discard,
      assign (\<lambda>s. s\<lparr>TRAIN_FILE := os_path_join (SCRIPT_DIR s) ''train.py''\<rparr>)]"

definition cell_15 :: "env \<Rightarrow> stmt" where
  "cell_15 E = exec E (\<lambda>s. writefile (TRAIN_FILE s)) discard"

definition cell_16 :: "env \<Rightarrow> stmt" where
  "cell_16 E = block
     [assign (\<lambda>s. s\<lparr>UTILS_DIR := os_path_join (SCRIPT_DIR s) ''reco_utils''\<rparr>),
      if_then (\<lambda>s. fs s (UTILS_DIR s) \<noteq> None) (exec E (\<lambda>s. rmtree (UTILS_DIR s)) discard),
      exec E (\<lambda>s. copytree ''../../reco_utils/'' (UTILS_DIR s)) discard]"

text \<open>Cell 18: the parameters of the script and the estimator.\<close>

definition cell_18 :: "env \<Rightarrow> stmt" where
  "cell_18 E = block
     [exec E (\<lambda>s. as_mount (ds s))
        (\<lambda>v s. s\<lparr>script_params :=
           [(''--data-folder'', v),
            (''--data-file'', PStr (''movielens/'' @ data_file_name s)),
            (''--top-k'', PInt (TOP_K s)),
            (''--data-size'', PStr (MOVIELENS_DATA_SIZE s))]\<rparr>),
      exec E (\<lambda>s. Estimator (SCRIPT_DIR s) (script_params s) (compute_target s) ''train.py''
                     [''pandas''] [''sklearn'', ''tqdm''])
        (\<lambda>v s. s\<lparr>est := v\<rparr>)]"

text \<open>Cell 20: the experiment and the submission.\<close>

definition cell_20 :: "env \<Rightarrow> stmt" where
  "cell_20 E = block
     [assign (\<lambda>s. s\<lparr>EXPERIMENT_NAME := ''movielens-sar''\<rparr>),
      exec E (\<lambda>s. Experiment (ws s) (EXPERIMENT_NAME s)) (\<lambda>v s. s\<lparr>exp := v\<rparr>),
      exec E (\<lambda>s. submit (exp s) (est s)) (\<lambda>v s. s\<lparr>run := v\<rparr>)]"

text \<open>Cells 22, 24 and 26: the widget, the run, its metrics.\<close>

definition cell_22 :: "env \<Rightarrow> stmt" where
  "cell_22 E = exec E (\<lambda>s. RunDetails_show (run s)) discard"

definition cell_24 :: "env \<Rightarrow> stmt" where
  "cell_24 E = exec E (\<lambda>s. display (run s)) discard"

definition cell_26 :: "env \<Rightarrow> stmt" where
  "cell_26 E = block
     [exec E (\<lambda>s. get_metrics (run s)) (\<lambda>v s. s\<lparr>metrics := v\<rparr>),
      exec E (\<lambda>s. display (metrics s)) discard]"

text \<open>Cell 28 holds comments only (the deletion of the compute target is commented out).
  Cell 29 removes the temporary directory.\<close>

definition cell_28 :: stmt where
  "cell_28 = block []"

definition cell_29 :: "env \<Rightarrow> stmt" where
  "cell_29 E = exec E (\<lambda>s. cleanup (tmp_dir s)) discard"

text \<open>
  Running the notebook from top to bottom stops at the first cell that fails.
  \<open>notebook_with E k z\<close> is the notebook with the parameters \<open>k\<close> and \<open>z\<close> in cell 3,
  \<open>notebook E\<close> the notebook as it is written.
\<close>

definition notebook_with :: "env \<Rightarrow> int \<Rightarrow> string \<Rightarrow> stmt list" where
  "notebook_with E k z =
     [cell_2 E, cell_3 k z, cell_5 E, cell_7 E, cell_9 E, cell_11 E, cell_13 E, cell_15 E, cell_16 E,
      cell_18 E, cell_20 E, cell_22 E, cell_24 E, cell_26 E, cell_28, cell_29 E]"

definition notebook :: "env \<Rightarrow> stmt list" where
  "notebook E = notebook_with E 10 ''100k''"

definition run_with :: "env \<Rightarrow> int \<Rightarrow> string \<Rightarrow> stmt" where
  "run_with E k z = block (notebook_with E k z)"

definition run_all :: "env \<Rightarrow> stmt" where
  "run_all E = block (notebook E)"

text \<open>A fresh kernel: nothing has happened, no global is bound. The local files, the
  datastore and the module search path are what they are when the notebook starts.\<close>

definition fresh_kernel :: "(string \<rightharpoonup> node) \<Rightarrow> (string \<Rightarrow> bool) \<Rightarrow> string list \<Rightarrow> nb" where
  "fresh_kernel f b p =
     \<lparr>trace = [], fs = f, blobs = b, sys_path = p, TOP_K = 0, MOVIELENS_DATA_SIZE = [], ws = PNone,
      tmp_dir = [], TARGET_DIR = [], data = PNone, data_file_name = [], ds = PNone,
      VM_SIZE = [], MIN_NODES = 0, MAX_NODES = 0, CLUSTER_NAME = [], compute_target = PNone,
      compute_config = PNone, SCRIPT_DIR = [], TRAIN_FILE = [], UTILS_DIR = [],
      script_params = [], est = PNone, EXPERIMENT_NAME = [], exp = PNone, run = PNone,
      metrics = PNone\<rparr>"

section \<open>The training script\<close>

text \<open>
  The text that cell 15 writes to \<open>train.py\<close>, as the statements it runs on the compute
  target. Its globals; those that share a name with a global of the notebook carry a
  prime.
\<close>

record job = proc +
  TARGET_DIR' :: string
  OUTPUT_FILE_NAME :: string
  MODEL_FILE_NAME :: string
  run' :: pyval
  parser :: "argument list"
  args :: namespace
  header :: "(string \<times> string) list"
  data_pickle_path :: string
  data' :: pyval
  train :: pyval
  test :: pyval
  model :: pyval
  t :: pyval
  top_k :: pyval
  eval_map :: pyval
  eval_ndcg :: pyval
  eval_precision :: pyval
  eval_recall :: pyval

type_synonym script = "job statement"

text \<open>\<open>header["col_user"]\<close>: the value at a key of the dictionary.\<close>

definition item :: "(string \<times> string) list \<Rightarrow> string \<Rightarrow> string" where
  "item d k = (case map_of d k of Some v \<Rightarrow> v | None \<Rightarrow> [])"

text \<open>
  The script is started with the command line \<open>argv\<close> (\<open>sys.argv[1:]\<close>). The parser is
  built by the four \<open>add_argument\<close> calls, one for each declared argument in order, and
  \<open>args\<close> is the namespace that \<open>parse_args\<close> returns for the command line.
\<close>

definition train_py :: "env \<Rightarrow> string list \<Rightarrow> script" where
  "train_py E argv = block
     ([exec E (\<lambda>s. import_modules
          [''argparse'', ''os'', ''numpy'', ''pandas'', ''itertools'', ''logging'', ''azureml.core'',
           ''sklearn.externals'', ''reco_utils.common.timer'', ''reco_utils.dataset'',
           ''reco_utils.dataset.python_splitters'', ''reco_utils.evaluation.python_evaluation'',
           ''reco_utils.recommender.sar.sar_singlenode'']) discard,
       exec E (\<lambda>s. basicConfig ''DEBUG'' ''%(asctime)s %(levelname)-8s %(message)s'') discard,
       assign (\<lambda>s. s\<lparr>TARGET_DIR' := ''movielens''\<rparr>),
       assign (\<lambda>s. s\<lparr>OUTPUT_FILE_NAME := ''outputs/movielens_sar_model.pkl''\<rparr>),
       assign (\<lambda>s. s\<lparr>MODEL_FILE_NAME := ''movielens_sar_model.pkl''\<rparr>),
       exec E (\<lambda>s. Run_get_context) (\<lambda>v s. s\<lparr>run' := v\<rparr>),
       exec E (\<lambda>s. ArgumentParser) (\<lambda>v s. s\<lparr>parser := []\<rparr>)]
      @ map (\<lambda>a. exec E (\<lambda>s. add_argument (parser s) a) (\<lambda>v s. s\<lparr>parser := parser s @ [a]\<rparr>))
          declared
      @ [exec E (\<lambda>s. parser_parse_args (parser s) argv)
           (\<lambda>v s. s\<lparr>args := (case parse_args (int_of E) (parser s) argv of
                                Inr ns \<Rightarrow> ns | Inl e \<Rightarrow> Map.empty)\<rparr>),
         assign (\<lambda>s. s\<lparr>header :=
           [(''col_user'', ''UserId''), (''col_item'', ''MovieId''), (''col_rating'', ''Rating''),
            (''col_timestamp'', ''Timestamp'')]\<rparr>),
         exec E (\<lambda>s. path_join (attr (args s) ''data_folder'') (attr (args s) ''data_file''))
           (\<lambda>v s. s\<lparr>data_pickle_path := str_of v\<rparr>),
         exec E (\<lambda>s. read_pickle (data_pickle_path s)) (\<lambda>v s. s\<lparr>data' := v\<rparr>),
         exec E (\<lambda>s. run_log (run' s) ''top-k'' (attr (args s) ''top_k'')) discard,
         exec E (\<lambda>s. run_log (run' s) ''data-size'' (attr (args s) ''data_size'')) discard,
         exec E (\<lambda>s. python_stratified_split (data' s) (PFloat ''0.75'') (item (header s) ''col_user'')
                        (item (header s) ''col_item'') 42)
           (\<lambda>v s. s\<lparr>train := PItem v 0, test := PItem v 1\<rparr>),
         exec E (\<lambda>s. SARSingleNode ''jaccard'' 30 PNone True (header s)) (\<lambda>v s. s\<lparr>model := v\<rparr>),
         with_as E (\<lambda>s. Timer) (\<lambda>v s. s\<lparr>t := v\<rparr>)
           (exec E (\<lambda>s. fit (model s) (train s)) discard),
         exec E (\<lambda>s. run_log (run' s) ''Training time'' (PAttr (t s) ''interval'')) discard,
         with_as E (\<lambda>s. Timer) (\<lambda>v s. s\<lparr>t := v\<rparr>)
           (exec E (\<lambda>s. recommend_k_items (model s) (test s) True) (\<lambda>v s. s\<lparr>top_k := v\<rparr>)),
         exec E (\<lambda>s. run_log (run' s) ''Prediction time'' (PAttr (t s) ''interval'')) discard,
         exec E (\<lambda>s. map_at_k (test s) (top_k s) ''UserId'' ''MovieId'' ''Rating'' ''prediction''
                        ''top_k'' (attr (args s) ''top_k''))
           (\<lambda>v s. s\<lparr>eval_map := v\<rparr>),
         exec E (\<lambda>s. ndcg_at_k (test s) (top_k s) ''UserId'' ''MovieId'' ''Rating'' ''prediction''
                        ''top_k'' (attr (args s) ''top_k''))
           (\<lambda>v s. s\<lparr>eval_ndcg := v\<rparr>),
         exec E (\<lambda>s. precision_at_k (test s) (top_k s) ''UserId'' ''MovieId'' ''Rating'' ''prediction''
                        ''top_k'' (attr (args s) ''top_k''))
           (\<lambda>v s. s\<lparr>eval_precision := v\<rparr>),
         exec E (\<lambda>s. recall_at_k (test s) (top_k s) ''UserId'' ''MovieId'' ''Rating'' ''prediction''
                        ''top_k'' (attr (args s) ''top_k''))
           (\<lambda>v s. s\<lparr>eval_recall := v\<rparr>),
         exec E (\<lambda>s. run_log (run' s) ''map'' (eval_map s)) discard,
         exec E (\<lambda>s. run_log (run' s) ''ndcg'' (eval_ndcg s)) discard,
         exec E (\<lambda>s. run_log (run' s) ''precision'' (eval_precision s)) discard,
         exec E (\<lambda>s. run_log (run' s) ''recall'' (eval_recall s)) discard,
         exec E (\<lambda>s. joblib_dump (model s) (MODEL_FILE_NAME s)) discard,
         exec E (\<lambda>s. upload_file (run' s) (OUTPUT_FILE_NAME s) (MODEL_FILE_NAME s)) discard])"

text \<open>
  The process of the remote run: nothing has happened, and the datastore with the files
  \<open>b\<close> is mounted at \<open>mount\<close>, so that a file of the datastore is the local file at
  \<open>mount\<close> joined with its path.
\<close>

definition mounted :: "string \<Rightarrow> (string \<Rightarrow> bool) \<Rightarrow> (string \<rightharpoonup> node)" where
  "mounted mount b =
     (\<lambda>q. case strip_prefix (os_path_join mount []) q of
            Some r \<Rightarrow> (if b r then Some File else None)
          | None \<Rightarrow> None)"

definition remote_start :: "string \<Rightarrow> (string \<Rightarrow> bool) \<Rightarrow> job" where
  "remote_start mount b =
     \<lparr>trace = [], fs = mounted mount b, blobs = b, TARGET_DIR' = [], OUTPUT_FILE_NAME = [],
      MODEL_FILE_NAME = [], run' = PNone, parser = [], args = Map.empty, header = [],
      data_pickle_path = [], data' = PNone, train = PNone, test = PNone, model = PNone, t = PNone,
      top_k = PNone, eval_map = PNone, eval_ndcg = PNone, eval_precision = PNone,
      eval_recall = PNone\<rparr>"

section \<open>Properties of runs\<close>

subsection \<open>Outcomes of a statement\<close>

text \<open>
  \<open>wp c Q X s\<close>: running \<open>c\<close> in \<open>s\<close> leaves a state that satisfies \<open>Q\<close> when \<open>c\<close> ends
  normally and \<open>X e\<close> when it ends with the exception \<open>e\<close>. \<open>tri P c Q X\<close> says so for
  every state that satisfies \<open>P\<close>.
\<close>

definition wp :: "'s statement \<Rightarrow> ('s \<Rightarrow> bool) \<Rightarrow> (exn \<Rightarrow> 's \<Rightarrow> bool) \<Rightarrow> 's \<Rightarrow> bool" where
  "wp c Q X s = (case c s of (None, s') \<Rightarrow> Q s' | (Some e, s') \<Rightarrow> X e s')"

definition tri :: "('s \<Rightarrow> bool) \<Rightarrow> 's statement \<Rightarrow> ('s \<Rightarrow> bool) \<Rightarrow> (exn \<Rightarrow> 's \<Rightarrow> bool) \<Rightarrow> bool" where
  "tri P c Q X \<longleftrightarrow> (\<forall>s. P s \<longrightarrow> wp c Q X s)"

subsection \<open>Exceptions that are caught, exceptions that propagate\<close>

text \<open>
  The calls in the body of the notebook's \<open>try\<close>: the lookup of the compute target and
  the message that follows it.
\<close>

fun in_try :: "call \<Rightarrow> bool" where
  "in_try (ComputeTarget w n) = True"
| "in_try (print m) = (m = ''Found existing compute target'')"
| "in_try _ = False"

text \<open>
  \<open>failures_within g n\<close>: every call that failed among the events \<open>n\<close> satisfies \<open>g\<close>.
  A statement \<open>propagates g\<close> when, whatever happened before it (\<open>t0\<close>), either it ends
  normally and every failure among its events is of a call in \<open>g\<close>, or it ends with the
  exception of its last event, and every failure before that one is of a call in \<open>g\<close>.
  With \<open>g\<close> empty, the statement catches nothing. A statement \<open>absorbs g\<close> when every
  failure among its events is in \<open>g\<close>, however it ends.
\<close>

definition failures_within :: "(call \<Rightarrow> bool) \<Rightarrow> event list \<Rightarrow> bool" where
  "failures_within g n = list_all (\<lambda>ev. isl (snd ev) \<longrightarrow> g (fst ev)) n"

definition okT :: "(call \<Rightarrow> bool) \<Rightarrow> event list \<Rightarrow> 'a proc_scheme \<Rightarrow> bool" where
  "okT g t0 s \<longleftrightarrow> (\<exists>n. trace s = t0 @ n \<and> failures_within g n)"

definition failT :: "(call \<Rightarrow> bool) \<Rightarrow> event list \<Rightarrow> exn \<Rightarrow> 'a proc_scheme \<Rightarrow> bool" where
  "failT g t0 e s \<longleftrightarrow> (\<exists>n c. trace s = t0 @ n @ [(c, Inl e)] \<and> failures_within g n)"

definition propagates :: "(call \<Rightarrow> bool) \<Rightarrow> 'a proc_scheme statement \<Rightarrow> bool" where
  "propagates g c \<longleftrightarrow> (\<forall>t0 s. okT g t0 s \<longrightarrow> wp c (okT g t0) (failT g t0) s)"

definition absorbs :: "(call \<Rightarrow> bool) \<Rightarrow> 'a proc_scheme statement \<Rightarrow> bool" where
  "absorbs g c \<longleftrightarrow> (\<forall>t0 s. okT g t0 s \<longrightarrow> wp c (okT g t0) (\<lambda>e. okT g t0) s)"

definition nothing :: "call \<Rightarrow> bool" where
  "nothing c = False"

subsection \<open>The steps of the workflow\<close>

text \<open>
  A step of the workflow is made by the call that defines it: the creation of the
  workspace by \<open>Workspace.create\<close>, the upload of the dataset by \<open>ds.upload\<close>, the
  acquisition of the compute target by the lookup \<open>ComputeTarget\<close> or by
  \<open>ComputeTarget.create\<close>, the generation of the script by \<open>%%writefile\<close>, the
  submission of the estimator by \<open>exp.submit\<close>, the monitoring by \<open>RunDetails(run).show\<close>,
  the metrics by \<open>run.get_metrics\<close>, the cleanup by \<open>tmp_dir.cleanup\<close>. The calls that
  prepare a step (the download, the script directory, the estimator object) make no
  step. The steps of a trace are the steps of its calls, in order, a run of calls of one
  step counted once.
\<close>

datatype step =
    workspace_creation | dataset_upload | compute_target_acquisition | script_generation
  | estimator_submission | run_monitoring | metric_retrieval | temp_cleanup

fun step_of :: "call \<Rightarrow> step option" where
  "step_of (Workspace_create _ _ _ _ _) = Some workspace_creation"
| "step_of (upload _ _ _ _ _) = Some dataset_upload"
| "step_of (ComputeTarget _ _) = Some compute_target_acquisition"
| "step_of (ComputeTarget_create _ _ _) = Some compute_target_acquisition"
| "step_of (writefile _) = Some script_generation"
| "step_of (submit _ _) = Some estimator_submission"
| "step_of (RunDetails_show _) = Some run_monitoring"
| "step_of (get_metrics _) = Some metric_retrieval"
| "step_of (cleanup _) = Some temp_cleanup"
| "step_of _ = None"

definition steps :: "event list \<Rightarrow> step list" where
  "steps h = remdups_adj (List.map_filter (\<lambda>ev. step_of (fst ev)) h)"

definition sequence :: "step list" where
  "sequence =
     [workspace_creation, dataset_upload, compute_target_acquisition, script_generation,
      estimator_submission, run_monitoring, metric_retrieval, temp_cleanup]"

definition advance :: "step list \<Rightarrow> event \<Rightarrow> step list" where
  "advance xs ev =
     (case step_of (fst ev) of
        None \<Rightarrow> xs
      | Some x \<Rightarrow> (if xs \<noteq> [] \<and> last xs = x then xs else xs @ [x]))"

definition in_sequence :: "exn \<Rightarrow> nb \<Rightarrow> bool" where
  "in_sequence e s \<longleftrightarrow> prefix (steps (trace s)) sequence"

subsection \<open>Environments and states to run the code in\<close>

text \<open>
  \<open>quiet\<close>: no call fails and no file appears on the side. \<open>failing_workspace\<close>: the
  creation of the workspace fails. \<open>interrupted_lookup\<close>: the lookup of the compute
  target is interrupted from the keyboard. \<open>checkout\<close> is a working copy of the repository
  with its \<open>reco_utils\<close> package, \<open>start\<close> a fresh kernel in it, \<open>with_workspace\<close> a
  kernel that holds a workspace.
\<close>

definition quiet :: env where
  "quiet = \<lparr>raises = (\<lambda>h c. None), returns = (\<lambda>h c. length h), writes = (\<lambda>h c. []),
            suppresses = (\<lambda>h c. False), int_of = py_int,
            mkdtemp = ''/tmp/tmp6imrlt0z'', VERSION = ''1.0.18''\<rparr>"

definition failing_workspace :: env where
  "failing_workspace =
     quiet\<lparr>raises := (\<lambda>h c. case c of
        Workspace_create a b c d e \<Rightarrow> Some (Exception ''WorkspaceException'') | _ \<Rightarrow> None)\<rparr>"

definition interrupted_lookup :: env where
  "interrupted_lookup =
     quiet\<lparr>raises := (\<lambda>h c. case c of ComputeTarget w n \<Rightarrow> Some KeyboardInterrupt | _ \<Rightarrow> None)\<rparr>"

definition checkout :: "string \<rightharpoonup> node" where
  "checkout = [''../../reco_utils'' \<mapsto> Dir, ''../../reco_utils/__init__.py'' \<mapsto> File]"

definition start :: nb where
  "start = fresh_kernel checkout (\<lambda>q. False) []"

definition with_workspace :: nb where
  "with_workspace = (fresh_kernel Map.empty (\<lambda>q. False) [])\<lparr>ws := PObj 0\<rparr>"

subsection \<open>A script without a handler\<close>

text \<open>
  \<open>after_failure h\<close> is the trace \<open>h\<close> from its first failed call on; it is empty when no
  call failed. \<open>raised h\<close> lists the exceptions raised in \<open>h\<close>. \<open>unwound e h\<close>: a call
  failed, everything after the first failed call is the \<open>__exit__\<close> of a \<open>with\<close> block
  on the way out, and \<open>e\<close> is the exception raised last. A statement is \<open>tidy\<close> when,
  started where no call has failed, it either ends normally and no call has failed, or
  ends with an exception \<open>e\<close> and the trace is unwound with \<open>e\<close>: no failure is followed
  by a further statement.
\<close>

definition after_failure :: "event list \<Rightarrow> event list" where
  "after_failure h = dropWhile (\<lambda>ev. \<not> isl (snd ev)) h"

fun is_exit :: "call \<Rightarrow> bool" where
  "is_exit (context_exit m x) = True"
| "is_exit _ = False"

definition raised :: "event list \<Rightarrow> exn list" where
  "raised h = List.map_filter (\<lambda>ev. case snd ev of Inl e \<Rightarrow> Some e | Inr v \<Rightarrow> None) h"

definition unwound :: "exn \<Rightarrow> event list \<Rightarrow> bool" where
  "unwound e h \<longleftrightarrow>
     after_failure h \<noteq> [] \<and> list_all (\<lambda>ev. is_exit (fst ev)) (tl (after_failure h)) \<and>
     last (raised h) = e"

definition tidy :: "'a proc_scheme statement \<Rightarrow> bool" where
  "tidy c \<longleftrightarrow>
     (\<forall>s. after_failure (trace s) = [] \<longrightarrow>
        wp c (\<lambda>s'. after_failure (trace s') = []) (\<lambda>e s'. unwound e (trace s')) s)"

subsection \<open>How far a run has come\<close>

text \<open>\<open>reached k\<close>: the steps made so far are the first \<open>k\<close> steps of the sequence.\<close>

definition reached :: "nat \<Rightarrow> nb \<Rightarrow> bool" where
  "reached k s \<longleftrightarrow> steps (trace s) = take k sequence"

subsection \<open>Runs in which no call fails\<close>

text \<open>A statement \<open>completes\<close> when it ends normally from every state.\<close>

definition completes :: "'s statement \<Rightarrow> bool" where
  "completes c \<longleftrightarrow> (\<forall>s. wp c (\<lambda>s'. True) (\<lambda>e s'. False) s)"

subsection \<open>Calls that are waited for\<close>













subsection \<open>Local files and the other globals\<close>









section \<open>The pipeline definition: what it declares\<close>

text \<open>
  C3. The pipeline definition has exactly four top-level keys. \<open>pr\<close> lists the branches
  main and staging, \<open>trigger\<close> the branches staging and main, \<open>variables\<close> holds one
  entry, the group LinuxAgentPool, and \<open>extends\<close> names the template
  dsvm_linux_template.yml with exactly the parameters test_types (the single item unit),
  task_name, conda_env, conda_opts, pip_opts and pytest_markers, each a literal value.
  No other key occurs anywhere in the document: it has no steps, jobs or scripts.
\<close>

theorem pipeline_declares:
  \<open>keys pipeline = [''pr'', ''trigger'', ''variables'', ''extends''] \<and>
   get pipeline ''pr'' = Some (Seq [Scalar ''main'', Scalar ''staging'']) \<and>
   get pipeline ''trigger'' = Some (Seq [Scalar ''staging'', Scalar ''main'']) \<and>
   get pipeline ''variables'' = Some (Seq [Mapping [(''group'', Scalar ''LinuxAgentPool'')]]) \<and>
   map_option keys (get pipeline ''extends'') = Some [''template'', ''parameters''] \<and>
   at pipeline [''extends'', ''template''] = Some (Scalar ''dsvm_linux_template.yml'') \<and>
   map_option keys (at pipeline [''extends'', ''parameters'']) =
     Some [''test_types'', ''task_name'', ''conda_env'', ''conda_opts'', ''pip_opts'', ''pytest_markers''] \<and>
   at pipeline [''extends'', ''parameters'', ''test_types''] = Some (Seq [Scalar ''unit'']) \<and>
   at pipeline [''extends'', ''parameters'', ''task_name''] = Some (Scalar ''Test - Unit Notebook Linux GPU'') \<and>
   at pipeline [''extends'', ''parameters'', ''conda_env''] = Some (Scalar ''unit_notebook_linux_gpu'') \<and>
   at pipeline [''extends'', ''parameters'', ''conda_opts''] =
     Some (Scalar ''python=3.6 cudatoolkit=10.0 "cudnn>=7.6"'') \<and>
   at pipeline [''extends'', ''parameters'', ''pip_opts''] =
     Some (Scalar ''[gpu,examples]  -f https://download.pytorch.org/whl/cu100/torch_stable.html'') \<and>
   at pipeline [''extends'', ''parameters'', ''pytest_markers''] =
     Some (Scalar ''notebooks and not spark and gpu'') \<and>
   all_keys pipeline =
     [''pr'', ''trigger'', ''variables'', ''group'', ''extends'', ''template'', ''parameters'',
      ''test_types'', ''task_name'', ''conda_env'', ''conda_opts'', ''pip_opts'', ''pytest_markers'']\<close>
  by (simp add: pipeline_def at_def)

section \<open>Statements and their outcomes\<close>

lemma wp_assign: "wp (assign f) Q X s = Q (f s)"
  by (simp add: wp_def assign_def)

lemma wp_exec:
  "wp (exec E c st) Q X s =
     (case failure E s (c s) of
        Some e \<Rightarrow> X e (failed E (c s) e s)
      | None \<Rightarrow> Q (st (result E (trace s) (c s)) (returned E (c s) (result E (trace s) (c s)) s)))"
  by (simp add: wp_def exec_def perform_def split: option.splits)

lemma wp_block_Nil: "wp (block []) Q X s = Q s"
  by (simp add: wp_def block.simps)

lemma wp_block_Cons: "wp (block (c # cs)) Q X s = wp c (wp (block cs) Q X) X s"
  by (simp add: wp_def block.simps split: prod.splits option.splits)

lemma wp_try_except: "wp (try_except b h) Q X s = wp b Q (\<lambda>e. wp h Q X) s"
  by (simp add: wp_def try_except_def split: prod.splits option.splits)

lemma wp_if_then: "wp (if_then b c) Q X s = (if b s then wp c Q X s else Q s)"
  by (simp add: wp_def if_then_def)

lemma wp_mono:
  "wp c Q X s \<Longrightarrow> (\<And>s'. Q s' \<Longrightarrow> Q' s') \<Longrightarrow> (\<And>e s'. X e s' \<Longrightarrow> X' e s') \<Longrightarrow> wp c Q' X' s"
  by (auto simp: wp_def split: prod.splits option.splits)

lemma failures_within_snoc:
  "failures_within g (n @ [ev]) \<longleftrightarrow> failures_within g n \<and> (isl (snd ev) \<longrightarrow> g (fst ev))"
  by (simp add: failures_within_def)

lemma okT_returned:
  assumes "okT g t0 s" and "\<And>x. trace (st v x) = trace x"
  shows "okT g t0 (st v (returned E c v s))"
proof -
  from assms(1) obtain n where n: "trace s = t0 @ n" "failures_within g n"
    by (auto simp: okT_def)
  have "trace (st v (returned E c v s)) = t0 @ (n @ [(c, Inr v)])"
    by (simp add: assms(2) returned_def n)
  moreover have "failures_within g (n @ [(c, Inr v)])"
    by (simp add: failures_within_snoc n)
  ultimately show ?thesis
    unfolding okT_def by blast
qed

lemma failT_failed:
  assumes "okT g t0 s"
  shows "failT g t0 e (failed E c e s)"
proof -
  from assms obtain n where n: "trace s = t0 @ n" "failures_within g n"
    by (auto simp: okT_def)
  then show ?thesis
    unfolding failT_def failed_def by auto
qed

lemma okT_failed:
  assumes "okT g t0 s" and "g c"
  shows "okT g t0 (failed E c e s)"
proof -
  from assms obtain n where n: "trace s = t0 @ n" "failures_within g n"
    by (auto simp: okT_def)
  have "trace (failed E c e s) = t0 @ (n @ [(c, Inl e)])"
    by (simp add: failed_def n)
  moreover have "failures_within g (n @ [(c, Inl e)])"
    by (simp add: failures_within_snoc n assms(2))
  ultimately show ?thesis
    unfolding okT_def by blast
qed

lemma propagates_exec:
  assumes "\<And>v x. trace (st v x) = trace x"
  shows "propagates g (exec E c st)"
  unfolding propagates_def wp_exec
  by (auto split: option.splits intro: failT_failed okT_returned assms)

lemma absorbs_exec:
  assumes "\<And>v x. trace (st v x) = trace x" and "\<And>x. g (c x)"
  shows "absorbs g (exec E c st)"
  unfolding absorbs_def wp_exec
  by (auto split: option.splits intro: okT_failed okT_returned assms)

lemma propagates_assign:
  assumes "\<And>x. trace (f x) = trace x"
  shows "propagates g (assign f)"
  unfolding propagates_def wp_assign by (simp add: okT_def assms)

lemma propagates_block:
  fixes cs :: "'a proc_scheme statement list"
  assumes "list_all (propagates g) cs"
  shows "propagates g (block cs)"
  using assms
proof (induction cs)
  case Nil
  then show ?case by (simp add: propagates_def wp_block_Nil)
next
  case (Cons c cs)
  then have c: "propagates g c" and cs: "propagates g (block cs)" by simp_all
  show ?case
    unfolding propagates_def wp_block_Cons
  proof (intro allI impI)
    fix t0 and s :: "'a proc_scheme" assume "okT g t0 s"
    with c have "wp c (okT g t0) (failT g t0) s" by (simp add: propagates_def)
    then show "wp c (wp (block cs) (okT g t0) (failT g t0)) (failT g t0) s"
      by (rule wp_mono) (use cs in \<open>auto simp: propagates_def\<close>)
  qed
qed

lemma absorbs_block:
  fixes cs :: "'a proc_scheme statement list"
  assumes "list_all (absorbs g) cs"
  shows "absorbs g (block cs)"
  using assms
proof (induction cs)
  case Nil
  then show ?case by (simp add: absorbs_def wp_block_Nil)
next
  case (Cons c cs)
  then have c: "absorbs g c" and cs: "absorbs g (block cs)" by simp_all
  show ?case
    unfolding absorbs_def wp_block_Cons
  proof (intro allI impI)
    fix t0 and s :: "'a proc_scheme" assume "okT g t0 s"
    with c have "wp c (okT g t0) (\<lambda>e. okT g t0) s" by (simp add: absorbs_def)
    then show "wp c (wp (block cs) (okT g t0) (\<lambda>e. okT g t0)) (\<lambda>e. okT g t0) s"
      by (rule wp_mono) (use cs in \<open>auto simp: absorbs_def\<close>)
  qed
qed

lemma propagates_if_then: "propagates g c \<Longrightarrow> propagates g (if_then b c)"
  by (simp add: propagates_def wp_if_then)

lemma propagates_try_except:
  fixes b :: "'a proc_scheme statement"
  assumes "absorbs g b" and "propagates g h"
  shows "propagates g (try_except b h)"
  unfolding propagates_def wp_try_except
proof (intro allI impI)
  fix t0 and s :: "'a proc_scheme" assume "okT g t0 s"
  with assms(1) have "wp b (okT g t0) (\<lambda>e. okT g t0) s" by (simp add: absorbs_def)
  then show "wp b (okT g t0) (\<lambda>e. wp h (okT g t0) (failT g t0)) s"
    by (rule wp_mono) (use assms(2) in \<open>auto simp: propagates_def\<close>)
qed

lemmas propagates_intros =
  propagates_block propagates_exec propagates_assign propagates_if_then

lemma wp_block_append: "wp (block (cs @ cs2)) Q X s = wp (block cs) (wp (block cs2) Q X) X s"
proof (induction cs arbitrary: s)
  case Nil
  show ?case by (simp add: wp_block_Nil)
next
  case (Cons a cs)
  then have "wp (block (cs @ cs2)) Q X = wp (block cs) (wp (block cs2) Q X) X"
    by (intro ext)
  then show ?case by (simp add: wp_block_Cons)
qed

lemma tri_block_Nil: "(\<And>s. P s \<Longrightarrow> R s) \<Longrightarrow> tri P (block []) R X"
  by (simp add: tri_def wp_block_Nil)

lemma tri_block_Cons:
  assumes "tri P c Q X" and "tri Q (block cs) R X"
  shows "tri P (block (c # cs)) R X"
  unfolding tri_def wp_block_Cons
proof (intro allI impI)
  fix s assume "P s"
  with assms(1) have "wp c Q X s" by (simp add: tri_def)
  then show "wp c (wp (block cs) R X) X s"
    by (rule wp_mono) (use assms(2) in \<open>auto simp: tri_def\<close>)
qed

lemma remdups_adj_snoc:
  "remdups_adj (xs @ [x]) = (if xs \<noteq> [] \<and> last xs = x then remdups_adj xs else remdups_adj xs @ [x])"
  by (induction xs rule: remdups_adj.induct) (auto)

lemma steps_snoc:
  "steps (h @ [ev]) =
     (case step_of (fst ev) of
        None \<Rightarrow> steps h
      | Some x \<Rightarrow> (if steps h \<noteq> [] \<and> last (steps h) = x then steps h else steps h @ [x]))"
  by (auto simp: steps_def List.map_filter_def remdups_adj_snoc split: option.splits)

lemma steps_append: "steps (h @ evs) = foldl advance (steps h) evs"
proof (induction evs rule: rev_induct)
  case Nil
  show ?case by simp
next
  case (snoc ev evs)
  have "steps (h @ evs @ [ev]) = advance (steps (h @ evs)) ev"
    using steps_snoc [of "h @ evs" ev] by (simp add: advance_def)
  with snoc show ?case by simp
qed

lemma wp_execI:
  "(\<And>e. X e (failed E (c s) e s)) \<Longrightarrow> (\<And>v. Q (st v (returned E (c s) v s))) \<Longrightarrow> wp (exec E c st) Q X s"
  by (simp add: wp_exec split: option.splits)

lemmas wp_simps = wp_assign wp_block_Nil wp_block_Cons wp_try_except wp_if_then

section \<open>Exceptions: the one handler\<close>

lemma propagates_cell_11: "propagates in_try (cell_11 E)"
  unfolding cell_11_def
  by (intro propagates_block propagates_try_except absorbs_block)
     (simp_all add: discard_def propagates_intros propagates_try_except absorbs_block absorbs_exec)

lemma propagates_run_with: "propagates in_try (run_with E k z)"
  unfolding run_with_def notebook_with_def
  apply (rule propagates_block)
  apply (simp add: propagates_cell_11)
  apply (simp_all add: cell_2_def cell_3_def cell_5_def cell_7_def cell_9_def cell_13_def cell_15_def
      cell_16_def cell_18_def cell_20_def cell_22_def cell_24_def cell_26_def cell_28_def cell_29_def
      discard_def propagates_intros)
  done

lemma run_all_with: "run_all E = run_with E 10 ''100k''"
  by (simp add: run_all_def run_with_def notebook_def)

lemma propagates_run_all: "propagates in_try (run_all E)"
  by (simp add: run_all_with propagates_run_with)

lemma catches_nothing_others:
  "list_all (propagates nothing) (take 5 (notebook E) @ drop 6 (notebook E))"
  by (simp add: notebook_def notebook_with_def cell_2_def cell_3_def cell_5_def cell_7_def cell_9_def
      cell_13_def cell_15_def cell_16_def cell_18_def cell_20_def cell_22_def cell_24_def cell_26_def
      cell_28_def cell_29_def discard_def propagates_intros)

lemma failures_within_nth:
  assumes "failures_within g n" and "i < length n" and "n ! i = (c, Inl e)"
  shows "g c"
  using assms by (auto simp: failures_within_def list_all_length)

lemmas run_simps =
  block.simps exec_def perform_def failure_def local_error_def failed_def returned_def result_def
  file_effect_def blob_effect_def side_effect_def assign_def try_except_def if_then_def discard_def

lemma lookup_failure_events:
  assumes "raises E (trace s) (ComputeTarget (ws s) ''cpucluster'') = Some e"
    and "cell_11 E s = (None, s')"
  shows "\<exists>p w. drop (length (trace s)) (trace s') =
      [(ComputeTarget (ws s) ''cpucluster'', Inl e),
       (print ''Creating a new compute target...'', Inr p),
       (provisioning_configuration ''STANDARD_D2_V2'' 0 2, Inr (compute_config s')),
       (ComputeTarget_create (ws s) ''cpucluster'' (compute_config s'), Inr (compute_target s')),
       (wait_for_completion (compute_target s') True PNone 20, Inr w)]"
  using assms
  by (auto simp: cell_11_def run_simps split: option.splits)

lemma lookup_failure_trace:
  assumes "raises E (trace s) (ComputeTarget (ws s) ''cpucluster'') = Some e"
  shows "wp (cell_11 E)
     (\<lambda>s'. \<exists>r n. trace s' = trace s @ (ComputeTarget (ws s) ''cpucluster'', Inl e) #
         (print ''Creating a new compute target...'', r) # n)
     (\<lambda>x s'. \<exists>r n. trace s' = trace s @ (ComputeTarget (ws s) ''cpucluster'', Inl e) #
         (print ''Creating a new compute target...'', r) # n) s"
  using assms
  by (simp add: cell_11_def wp_simps wp_exec failure_def local_error_def failed_def returned_def
      discard_def split: option.splits)

lemma lookup_failure_enters_handler:
  assumes "raises E (trace s) (ComputeTarget (ws s) ''cpucluster'') = Some e"
  shows "\<exists>r. take 2 (drop (length (trace s)) (trace (snd (cell_11 E s)))) =
      [(ComputeTarget (ws s) ''cpucluster'', Inl e),
       (print ''Creating a new compute target...'', r)]"
proof -
  obtain x s' where c: "cell_11 E s = (x, s')" by (cases "cell_11 E s")
  with lookup_failure_trace [OF assms] obtain r n where
    "trace s' = trace s @ (ComputeTarget (ws s) ''cpucluster'', Inl e) #
         (print ''Creating a new compute target...'', r) # n"
    by (cases x) (auto simp: wp_def)
  with c show ?thesis by simp
qed

subsection \<open>The training script has no handler\<close>

lemma after_failure_Nil_iff: "after_failure h = [] \<longleftrightarrow> (\<forall>ev\<in>set h. \<not> isl (snd ev))"
  by (auto simp: after_failure_def dropWhile_eq_Nil_conv)

lemma after_failure_snoc:
  "after_failure (h @ [ev]) =
     (if after_failure h = [] then (if isl (snd ev) then [ev] else []) else after_failure h @ [ev])"
  by (auto simp: after_failure_def dropWhile_append dropWhile_eq_Nil_conv)

lemma raised_snoc:
  "raised (h @ [ev]) = raised h @ (case snd ev of Inl e \<Rightarrow> [e] | Inr v \<Rightarrow> [])"
  by (simp add: raised_def List.map_filter_def split: sum.splits)

lemma unwound_first:
  "after_failure h = [] \<Longrightarrow> unwound e (h @ [(c, Inl e)])"
  by (simp add: unwound_def after_failure_snoc raised_snoc)

lemma unwound_exit_failed:
  "unwound e h \<Longrightarrow> unwound e' (h @ [(context_exit m x, Inl e')])"
  by (auto simp: unwound_def after_failure_snoc raised_snoc)

lemma unwound_exit_returned:
  "unwound e h \<Longrightarrow> unwound e (h @ [(context_exit m x, Inr v)])"
  by (auto simp: unwound_def after_failure_snoc raised_snoc)

lemma tidy_exec:
  assumes "\<And>v x. trace (st v x) = trace x"
  shows "tidy (exec E c st)"
  unfolding tidy_def wp_exec
  by (auto simp: assms failed_def returned_def after_failure_snoc unwound_first split: option.splits)

lemma tidy_assign:
  assumes "\<And>x. trace (f x) = trace x"
  shows "tidy (assign f)"
  unfolding tidy_def wp_assign by (simp add: assms)

lemma tidy_block:
  fixes cs :: "'a proc_scheme statement list"
  assumes "list_all tidy cs"
  shows "tidy (block cs)"
  using assms
proof (induction cs)
  case Nil
  then show ?case by (simp add: tidy_def wp_block_Nil)
next
  case (Cons c cs)
  then have c: "tidy c" and cs: "tidy (block cs)" by simp_all
  show ?case
    unfolding tidy_def wp_block_Cons
  proof (intro allI impI)
    fix s :: "'a proc_scheme" assume "after_failure (trace s) = []"
    with c have "wp c (\<lambda>s'. after_failure (trace s') = []) (\<lambda>e s'. unwound e (trace s')) s"
      by (simp add: tidy_def)
    then show "wp c (wp (block cs) (\<lambda>s'. after_failure (trace s') = []) (\<lambda>e s'. unwound e (trace s')))
        (\<lambda>e s'. unwound e (trace s')) s"
      by (rule wp_mono) (use cs in \<open>auto simp: tidy_def\<close>)
  qed
qed

lemma wp_leaving:
  "wp (leaving E m body) Q X s =
     wp body (wp (exec E (\<lambda>x. context_exit m None) discard) Q X)
       (\<lambda>e s'. case failure E s' (context_exit m (Some e)) of
           Some e' \<Rightarrow> X e' (failed E (context_exit m (Some e)) e' s')
         | None \<Rightarrow>
             (if suppresses E (trace s') (context_exit m (Some e))
              then Q (returned E (context_exit m (Some e)) (PBool True) s')
              else X e (returned E (context_exit m (Some e)) (PBool False) s'))) s"
  by (auto simp: wp_def leaving_def perform_def result_def split: prod.splits option.splits)

lemma wp_with_as:
  "wp (with_as E mgr bind body) Q X s =
     (case failure E s (mgr s) of
        Some e \<Rightarrow> X e (failed E (mgr s) e s)
      | None \<Rightarrow>
          wp (block [exec E (\<lambda>x. context_enter (result E (trace s) (mgr s))) bind,
                     leaving E (result E (trace s) (mgr s)) body]) Q X
            (returned E (mgr s) (result E (trace s) (mgr s)) s))"
  by (simp add: wp_def with_as_def perform_def split: option.splits)

lemma tidy_leaving:
  assumes "tidy body" and "\<And>h c. \<not> suppresses E h c"
  shows "tidy (leaving E m body)"
  unfolding tidy_def wp_leaving
proof (intro allI impI)
  fix s :: "'a proc_scheme" assume "after_failure (trace s) = []"
  with assms(1) have "wp body (\<lambda>s'. after_failure (trace s') = []) (\<lambda>e s'. unwound e (trace s')) s"
    by (simp add: tidy_def)
  then show "wp body
      (wp (exec E (\<lambda>x. context_exit m None) discard) (\<lambda>s'. after_failure (trace s') = [])
         (\<lambda>e s'. unwound e (trace s')))
      (\<lambda>e s'. case failure E s' (context_exit m (Some e)) of
           Some e' \<Rightarrow> unwound e' (trace (failed E (context_exit m (Some e)) e' s'))
         | None \<Rightarrow>
             (if suppresses E (trace s') (context_exit m (Some e))
              then after_failure (trace (returned E (context_exit m (Some e)) (PBool True) s')) = []
              else unwound e (trace (returned E (context_exit m (Some e)) (PBool False) s')))) s"
  proof (rule wp_mono)
    fix s' :: "'a proc_scheme" assume "after_failure (trace s') = []"
    show "wp (exec E (\<lambda>x. context_exit m None) discard) (\<lambda>s'. after_failure (trace s') = [])
         (\<lambda>e s'. unwound e (trace s')) s'"
    proof -
      have "tidy (exec E (\<lambda>x :: 'a proc_scheme. context_exit m None) discard)"
        by (rule tidy_exec) (simp add: discard_def)
      with \<open>after_failure (trace s') = []\<close> show ?thesis by (simp add: tidy_def)
    qed
  next
    fix e and s' :: "'a proc_scheme" assume "unwound e (trace s')"
    then show "case failure E s' (context_exit m (Some e)) of
           Some e' \<Rightarrow> unwound e' (trace (failed E (context_exit m (Some e)) e' s'))
         | None \<Rightarrow>
             (if suppresses E (trace s') (context_exit m (Some e))
              then after_failure (trace (returned E (context_exit m (Some e)) (PBool True) s')) = []
              else unwound e (trace (returned E (context_exit m (Some e)) (PBool False) s')))"
      by (simp add: assms(2) failed_def returned_def unwound_exit_failed unwound_exit_returned
          split: option.splits)
  qed
qed

lemma tidy_with_as:
  assumes "tidy body" and "\<And>h c. \<not> suppresses E h c" and "\<And>v x. trace (bind v x) = trace x"
  shows "tidy (with_as E mgr bind body)"
  unfolding tidy_def wp_with_as
proof (intro allI impI)
  fix s :: "'a proc_scheme" assume s: "after_failure (trace s) = []"
  have b: "\<And>m. tidy (block [exec E (\<lambda>x. context_enter m) bind, leaving E m body])"
    by (rule tidy_block) (simp add: tidy_exec assms tidy_leaving)
  show "case failure E s (mgr s) of
        Some e \<Rightarrow> unwound e (trace (failed E (mgr s) e s))
      | None \<Rightarrow>
          wp (block [exec E (\<lambda>x. context_enter (result E (trace s) (mgr s))) bind,
                     leaving E (result E (trace s) (mgr s)) body])
            (\<lambda>s'. after_failure (trace s') = []) (\<lambda>e s'. unwound e (trace s'))
            (returned E (mgr s) (result E (trace s) (mgr s)) s)"
    using s b [of "result E (trace s) (mgr s)"]
    by (simp add: tidy_def failed_def returned_def unwound_first after_failure_snoc
        split: option.splits)
qed

lemma tidy_train_py:
  assumes "\<And>h c. \<not> suppresses E h c"
  shows "tidy (train_py E argv)"
  unfolding train_py_def
  by (rule tidy_block) (simp add: declared_def tidy_exec tidy_assign tidy_with_as assms discard_def)

lemma train_py_unwinds:
  assumes "\<And>h c. \<not> suppresses E h c" and "trace s0 = []" and "train_py E argv s0 = (r, s)"
  shows "case r of None \<Rightarrow> after_failure (trace s) = [] | Some e \<Rightarrow> unwound e (trace s)"
proof -
  have "after_failure (trace s0) = []" by (simp add: assms(2) after_failure_def)
  with tidy_train_py [OF assms(1), of argv]
  have "wp (train_py E argv) (\<lambda>s'. after_failure (trace s') = []) (\<lambda>e s'. unwound e (trace s')) s0"
    by (simp add: tidy_def)
  with assms(3) show ?thesis by (simp add: wp_def split: option.splits)
qed

text \<open>
  C1. In cell 11 the lookup of the compute target named cpucluster stands in a \<open>try\<close>
  whose handler is a bare \<open>except:\<close>. Whatever exception the lookup raises, the
  handler is entered: the next call is its message. When the cell completes, the calls
  that followed the failed lookup are the message, the provisioning configuration
  with vm_size STANDARD_D2_V2, min_nodes 0 and max_nodes 2, the creation of the compute
  target cpucluster with that configuration in the same workspace, and the wait for its
  completion; the target created is the one the notebook goes on with. Cell 11 is the
  sixth code cell, and every other code cell catches nothing: an exception of any of its
  calls ends the cell with that exception. The script \<open>train.py\<close> catches nothing
  either: as long as the \<open>__exit__\<close> of its timers suppresses no exception (the timer is
  code of \<open>reco_utils\<close>), a run of the script that ends normally has no failed call,
  and a run in which a call fails ends with the exception raised last, nothing but the
  \<open>__exit__\<close> of a timer running after the first failure.
\<close>

theorem bare_except_fallback:
  "(\<forall>s s' e. raises E (trace s) (ComputeTarget (ws s) ''cpucluster'') = Some e \<and>
       cell_11 E s = (None, s') \<longrightarrow>
       (\<exists>p w. drop (length (trace s)) (trace s') =
          [(ComputeTarget (ws s) ''cpucluster'', Inl e),
           (print ''Creating a new compute target...'', Inr p),
           (provisioning_configuration ''STANDARD_D2_V2'' 0 2, Inr (compute_config s')),
           (ComputeTarget_create (ws s) ''cpucluster'' (compute_config s'), Inr (compute_target s')),
           (wait_for_completion (compute_target s') True PNone 20, Inr w)])) \<and>
   (\<forall>s e. raises E (trace s) (ComputeTarget (ws s) ''cpucluster'') = Some e \<longrightarrow>
       (\<exists>r. take 2 (drop (length (trace s)) (trace (snd (cell_11 E s)))) =
          [(ComputeTarget (ws s) ''cpucluster'', Inl e),
           (print ''Creating a new compute target...'', r)])) \<and>
   notebook E ! 5 = cell_11 E \<and>
   list_all (propagates nothing) (take 5 (notebook E) @ drop 6 (notebook E)) \<and>
   (\<forall>argv s0 r s. (\<forall>h c. \<not> suppresses E h c) \<and> trace s0 = [] \<and> train_py E argv s0 = (r, s) \<longrightarrow>
       (case r of None \<Rightarrow> after_failure (trace s) = [] | Some e \<Rightarrow> unwound e (trace s)))"
proof (intro conjI allI impI)
  fix s s' e
  assume "raises E (trace s) (ComputeTarget (ws s) ''cpucluster'') = Some e \<and> cell_11 E s = (None, s')"
  then show "\<exists>p w. drop (length (trace s)) (trace s') =
          [(ComputeTarget (ws s) ''cpucluster'', Inl e),
           (print ''Creating a new compute target...'', Inr p),
           (provisioning_configuration ''STANDARD_D2_V2'' 0 2, Inr (compute_config s')),
           (ComputeTarget_create (ws s) ''cpucluster'' (compute_config s'), Inr (compute_target s')),
           (wait_for_completion (compute_target s') True PNone 20, Inr w)]"
    by (auto dest: lookup_failure_events)
next
  fix s :: nb and e
  assume "raises E (trace s) (ComputeTarget (ws s) ''cpucluster'') = Some e"
  then show "\<exists>r. take 2 (drop (length (trace s)) (trace (snd (cell_11 E s)))) =
      [(ComputeTarget (ws s) ''cpucluster'', Inl e),
       (print ''Creating a new compute target...'', r)]"
    by (rule lookup_failure_enters_handler)
next
  show "notebook E ! 5 = cell_11 E" by (simp add: notebook_def notebook_with_def)
next
  show "list_all (propagates nothing) (take 5 (notebook E) @ drop 6 (notebook E))"
    by (rule catches_nothing_others)
next
  fix argv r and s0 s :: job
  assume "(\<forall>h c. \<not> suppresses E h c) \<and> trace s0 = [] \<and> train_py E argv s0 = (r, s)"
  then have "\<And>h c. \<not> suppresses E h c" and "trace s0 = []" and "train_py E argv s0 = (r, s)"
    by simp_all
  then show "case r of None \<Rightarrow> after_failure (trace s) = [] | Some e \<Rightarrow> unwound e (trace s)"
    by (rule train_py_unwinds)
qed

theorem bare_except_fallback_witness:
  "raises interrupted_lookup (trace with_workspace) (ComputeTarget (ws with_workspace) ''cpucluster'') =
     Some KeyboardInterrupt \<and>
   fst (cell_11 interrupted_lookup with_workspace) = None \<and>
   map fst (trace (snd (cell_11 interrupted_lookup with_workspace))) =
     [ComputeTarget (PObj 0) ''cpucluster'',
      print ''Creating a new compute target...'',
      provisioning_configuration ''STANDARD_D2_V2'' 0 2,
      ComputeTarget_create (PObj 0) ''cpucluster''
        (compute_config (snd (cell_11 interrupted_lookup with_workspace))),
      wait_for_completion (compute_target (snd (cell_11 interrupted_lookup with_workspace))) True PNone 20] \<and>
   map fst (take 2 (trace (snd (cell_11 interrupted_lookup with_workspace)))) =
     [ComputeTarget (PObj 0) ''cpucluster'', print ''Creating a new compute target...''] \<and>
   (\<forall>h c. \<not> suppresses interrupted_lookup h c) \<and>
   trace (remote_start ''/mnt/data'' (\<lambda>q. False)) = [] \<and>
   fst (train_py interrupted_lookup [] (remote_start ''/mnt/data'' (\<lambda>q. False))) =
     Some (Exception ''TypeError'') \<and>
   unwound (Exception ''TypeError'')
     (trace (snd (train_py interrupted_lookup [] (remote_start ''/mnt/data'' (\<lambda>q. False)))))"
proof -
  let ?s' = "snd (cell_11 interrupted_lookup with_workspace)"
  let ?j = "train_py interrupted_lookup [] (remote_start ''/mnt/data'' (\<lambda>q. False))"
  have h: "raises interrupted_lookup (trace with_workspace) (ComputeTarget (ws with_workspace) ''cpucluster'') =
      Some KeyboardInterrupt"
    by (simp add: interrupted_lookup_def)
  have r: "fst (cell_11 interrupted_lookup with_workspace) = None"
    by (simp add: cell_11_def run_simps interrupted_lookup_def quiet_def with_workspace_def
        fresh_kernel_def)
  then have c: "cell_11 interrupted_lookup with_workspace = (None, ?s')"
    by (simp add: prod_eq_iff)
  from bare_except_fallback [THEN conjunct1, rule_format, OF conjI, OF h c]
  obtain p w where "drop (length (trace with_workspace)) (trace ?s') =
      [(ComputeTarget (ws with_workspace) ''cpucluster'', Inl KeyboardInterrupt),
       (print ''Creating a new compute target...'', Inr p),
       (provisioning_configuration ''STANDARD_D2_V2'' 0 2, Inr (compute_config ?s')),
       (ComputeTarget_create (ws with_workspace) ''cpucluster'' (compute_config ?s'), Inr (compute_target ?s')),
       (wait_for_completion (compute_target ?s') True PNone 20, Inr w)]"
    by (elim exE)
  moreover have w: "trace with_workspace = []" "ws with_workspace = PObj 0"
    by (simp_all add: with_workspace_def fresh_kernel_def)
  ultimately have m: "map fst (trace ?s') =
      [ComputeTarget (PObj 0) ''cpucluster'',
       print ''Creating a new compute target...'',
       provisioning_configuration ''STANDARD_D2_V2'' 0 2,
       ComputeTarget_create (PObj 0) ''cpucluster'' (compute_config ?s'),
       wait_for_completion (compute_target ?s') True PNone 20]"
    by simp
  from bare_except_fallback [THEN conjunct2, THEN conjunct1, rule_format, OF h]
  obtain x where "take 2 (drop (length (trace with_workspace)) (trace ?s')) =
      [(ComputeTarget (ws with_workspace) ''cpucluster'', Inl KeyboardInterrupt),
       (print ''Creating a new compute target...'', x)]"
    by (elim exE)
  with w have t2: "map fst (take 2 (trace ?s')) =
      [ComputeTarget (PObj 0) ''cpucluster'', print ''Creating a new compute target...'']"
    by simp
  have q: "\<forall>h c. \<not> suppresses interrupted_lookup h c"
    by (simp add: interrupted_lookup_def quiet_def)
  have t0: "trace (remote_start ''/mnt/data'' (\<lambda>q. False)) = []"
    by (simp add: remote_start_def)
  have f: "fst ?j = Some (Exception ''TypeError'')"
    by (simp add: train_py_def run_simps interrupted_lookup_def quiet_def remote_start_def
        declared_def option_strings_def parse_args_def attr_def)
  then have j: "?j = (Some (Exception ''TypeError''), snd ?j)"
    by (simp add: prod_eq_iff)
  from bare_except_fallback [where E = interrupted_lookup, THEN conjunct2, THEN conjunct2,
      THEN conjunct2, THEN conjunct2, rule_format, OF conjI, OF q conjI, OF t0 j]
  have u: "unwound (Exception ''TypeError'') (trace (snd ?j))"
    by simp
  from h r m t2 q t0 f u show ?thesis by (simp only: simp_thms)
qed

text \<open>
  C2. Run from top to bottom, the notebook handles no failure but those of the calls
  in the body of the \<open>try\<close> of cell 11. When any other call fails (the creation of the
  workspace, the download or the upload of the dataset, the generation of the script,
  the submission, the retrieval of the metrics, the cleanup), the run ends with that
  exception and the failed call is the last event: nothing is retried and nothing runs
  after it.
\<close>

theorem uncaught_outside_try:
  assumes "run_all E s0 = (r, s)" and "trace s0 = []"
    and "i < length (trace s)" and "trace s ! i = (c, Inl e)" and "\<not> in_try c"
  shows "r = Some e \<and> Suc i = length (trace s)"
proof -
  have "okT in_try [] s0"
    by (simp add: okT_def failures_within_def assms(2))
  with propagates_run_all [of E] have w: "wp (run_all E) (okT in_try []) (failT in_try []) s0"
    by (simp add: propagates_def)
  show ?thesis
  proof (cases r)
    case None
    with w assms(1) have "failures_within in_try (trace s)"
      by (simp add: wp_def okT_def)
    then have "in_try c" using assms(3,4) by (rule failures_within_nth)
    with assms(5) show ?thesis by simp
  next
    case (Some e')
    with w assms(1) obtain n c' where n: "trace s = n @ [(c', Inl e')]" "failures_within in_try n"
      by (auto simp: wp_def failT_def)
    have "\<not> i < length n"
    proof
      assume "i < length n"
      moreover from this n(1) assms(4) have "n ! i = (c, Inl e)" by (simp add: nth_append)
      ultimately have "in_try c" using n(2) by (auto intro: failures_within_nth)
      with assms(5) show False by simp
    qed
    with assms(3) n(1) have i: "i = length n" by simp
    with n(1) assms(4) have "e' = e" by simp
    with Some i n(1) show ?thesis by simp
  qed
qed

theorem uncaught_outside_try_witness:
  "trace start = [] \<and>
   4 < length (trace (snd (run_all failing_workspace start))) \<and>
   trace (snd (run_all failing_workspace start)) ! 4 =
     (Workspace_create ''<WORKSPACE_NAME>'' ''<SUBSCRIPTION_ID>'' ''<RESOURCE_GROUP>'' ''<WORKSPACE_REGION>'' True,
      Inl (Exception ''WorkspaceException'')) \<and>
   \<not> in_try (Workspace_create ''<WORKSPACE_NAME>'' ''<SUBSCRIPTION_ID>'' ''<RESOURCE_GROUP>''
     ''<WORKSPACE_REGION>'' True) \<and>
   fst (run_all failing_workspace start) = Some (Exception ''WorkspaceException'') \<and>
   length (trace (snd (run_all failing_workspace start))) = 5"
proof -
  let ?c = "Workspace_create ''<WORKSPACE_NAME>'' ''<SUBSCRIPTION_ID>'' ''<RESOURCE_GROUP>''
     ''<WORKSPACE_REGION>'' True"
  have t: "trace start = []" by (simp add: start_def fresh_kernel_def)
  have l: "4 < length (trace (snd (run_all failing_workspace start)))"
    by (simp add: run_all_def notebook_def notebook_with_def cell_2_def cell_3_def cell_5_def run_simps
        failing_workspace_def quiet_def start_def fresh_kernel_def)
  have n: "trace (snd (run_all failing_workspace start)) ! 4 = (?c, Inl (Exception ''WorkspaceException''))"
    by (simp add: run_all_def notebook_def notebook_with_def cell_2_def cell_3_def cell_5_def run_simps
        failing_workspace_def quiet_def start_def fresh_kernel_def)
  have g: "\<not> in_try ?c" by simp
  have p: "run_all failing_workspace start =
      (fst (run_all failing_workspace start), snd (run_all failing_workspace start))"
    by simp
  from uncaught_outside_try [OF p t l n g]
  have "fst (run_all failing_workspace start) = Some (Exception ''WorkspaceException'') \<and>
      length (trace (snd (run_all failing_workspace start))) = 5"
    by simp
  with t l n g show ?thesis by (simp only: simp_thms)
qed

section \<open>The order of the steps\<close>

lemmas order_simps = wp_simps reached_def in_sequence_def failed_def returned_def steps_append
  advance_def discard_def sequence_def

lemma order_cell_2: "tri (reached 0) (cell_2 E) (reached 0) in_sequence"
  unfolding tri_def cell_2_def by (auto simp: order_simps intro!: wp_execI)

lemma order_cell_3: "tri (reached 0) (cell_3 k z) (reached 0) in_sequence"
  unfolding tri_def cell_3_def by (auto simp: order_simps intro!: wp_execI)

lemma order_cell_5: "tri (reached 0) (cell_5 E) (reached 1) in_sequence"
  unfolding tri_def cell_5_def by (auto simp: order_simps intro!: wp_execI)

lemma order_cell_7: "tri (reached 1) (cell_7 E) (reached 1) in_sequence"
  unfolding tri_def cell_7_def by (auto simp: order_simps intro!: wp_execI)

lemma order_cell_9: "tri (reached 1) (cell_9 E) (reached 2) in_sequence"
  unfolding tri_def cell_9_def by (auto simp: order_simps intro!: wp_execI)

lemma order_cell_11: "tri (reached 2) (cell_11 E) (reached 3) in_sequence"
  unfolding tri_def cell_11_def by (auto simp: order_simps intro!: wp_execI)

lemma order_cell_13: "tri (reached 3) (cell_13 E) (reached 3) in_sequence"
  unfolding tri_def cell_13_def by (auto simp: order_simps intro!: wp_execI)

lemma order_cell_15: "tri (reached 3) (cell_15 E) (reached 4) in_sequence"
  unfolding tri_def cell_15_def by (auto simp: order_simps intro!: wp_execI)

lemma order_cell_16: "tri (reached 4) (cell_16 E) (reached 4) in_sequence"
  unfolding tri_def cell_16_def by (auto simp: order_simps intro!: wp_execI)

lemma order_cell_18: "tri (reached 4) (cell_18 E) (reached 4) in_sequence"
  unfolding tri_def cell_18_def by (auto simp: order_simps intro!: wp_execI)

lemma order_cell_20: "tri (reached 4) (cell_20 E) (reached 5) in_sequence"
  unfolding tri_def cell_20_def by (auto simp: order_simps intro!: wp_execI)

lemma order_cell_22: "tri (reached 5) (cell_22 E) (reached 6) in_sequence"
  unfolding tri_def cell_22_def by (auto simp: order_simps intro!: wp_execI)

lemma order_cell_24: "tri (reached 6) (cell_24 E) (reached 6) in_sequence"
  unfolding tri_def cell_24_def by (auto simp: order_simps intro!: wp_execI)

lemma order_cell_26: "tri (reached 6) (cell_26 E) (reached 7) in_sequence"
  unfolding tri_def cell_26_def by (auto simp: order_simps intro!: wp_execI)

lemma order_cell_28: "tri (reached 7) cell_28 (reached 7) in_sequence"
  unfolding tri_def cell_28_def by (auto simp: order_simps intro!: wp_execI)

lemma order_cell_29: "tri (reached 7) (cell_29 E) (reached 8) in_sequence"
  unfolding tri_def cell_29_def by (auto simp: order_simps intro!: wp_execI)

lemmas order_cells =
  order_cell_2 order_cell_3 order_cell_5 order_cell_7 order_cell_9 order_cell_11 order_cell_13
  order_cell_15 order_cell_16 order_cell_18 order_cell_20 order_cell_22 order_cell_24
  order_cell_26 order_cell_28 order_cell_29

lemma order_run_with: "tri (reached 0) (run_with E k z) (reached 8) in_sequence"
  unfolding run_with_def notebook_with_def
  apply (rule order_cells [THEN tri_block_Cons])+
  apply (rule tri_block_Nil)
  apply assumption
  done

subsection \<open>Runs that complete\<close>

lemma completes_assign: "completes (assign f)"
  by (simp add: completes_def wp_assign)

lemma completes_exec:
  assumes "\<And>s. failure E s (c s) = None"
  shows "completes (exec E c st)"
  by (simp add: completes_def wp_exec assms)

lemma completes_block:
  assumes "list_all completes cs"
  shows "completes (block cs)"
  using assms
proof (induction cs)
  case Nil
  show ?case by (simp add: completes_def wp_block_Nil)
next
  case (Cons c cs)
  then have c: "completes c" and cs: "completes (block cs)" by simp_all
  show ?case
    unfolding completes_def wp_block_Cons
  proof
    fix s
    from c have "wp c (\<lambda>s'. True) (\<lambda>e s'. False) s" by (simp add: completes_def)
    then show "wp c (wp (block cs) (\<lambda>s'. True) (\<lambda>e s'. False)) (\<lambda>e s'. False) s"
      by (rule wp_mono) (use cs in \<open>auto simp: completes_def\<close>)
  qed
qed

lemma completes_try_except:
  assumes "completes h"
  shows "completes (try_except b h)"
  unfolding completes_def wp_try_except
proof
  fix s
  from assms have "\<And>e s'. wp h (\<lambda>s'. True) (\<lambda>e s'. False) s'" by (simp add: completes_def)
  then show "wp b (\<lambda>s'. True) (\<lambda>e. wp h (\<lambda>s'. True) (\<lambda>e s'. False)) s"
    by (simp add: wp_def split: prod.splits option.splits)
qed

lemma inside_self: "inside d d"
  by (simp add: inside_def)

lemma completes_cell_16:
  assumes "\<And>h c. \<not> in_try c \<Longrightarrow> raises E h c = None"
  shows "completes (cell_16 E)"
  unfolding completes_def
proof
  fix s
  show "wp (cell_16 E) (\<lambda>s'. True) (\<lambda>e s'. False) s"
    unfolding cell_16_def
    by (simp add: wp_simps wp_exec failure_def local_error_def assms returned_def file_effect_def
        remove_tree_def inside_self discard_def)
qed

lemma run_completes:
  assumes "\<And>h c. \<not> in_try c \<Longrightarrow> raises E h c = None"
  shows "fst (run_with E k z s) = None"
proof -
  have ex: "completes (exec E c st)"
    if "\<And>f x. local_error E f (c x) = None" and "\<And>x. \<not> in_try (c x)" for c
    and st :: "pyval \<Rightarrow> nb \<Rightarrow> nb"
    by (rule completes_exec) (simp add: failure_def assms that)
  have "completes (run_with E k z)"
    unfolding run_with_def notebook_with_def
    apply (rule completes_block)
    apply (simp add: completes_cell_16 assms)
    apply (simp_all add: cell_2_def cell_3_def cell_5_def cell_7_def cell_9_def cell_11_def cell_13_def
        cell_15_def cell_18_def cell_20_def cell_22_def cell_24_def cell_26_def cell_28_def cell_29_def
        completes_block completes_assign completes_try_except ex local_error_def)
    done
  then have "wp (run_with E k z) (\<lambda>s'. True) (\<lambda>e s'. False) s"
    by (simp add: completes_def)
  then show ?thesis
    by (cases "run_with E k z s") (auto simp: wp_def split: option.splits)
qed

lemma quiet_run_completes:
  assumes "\<And>h c. raises E h c = None"
  shows "fst (run_with E k z s) = None"
  by (rule run_completes) (simp add: assms)

text \<open>
  C5. Run from top to bottom, whatever the parameters of cell 3, the notebook goes
  through the steps of the workflow in one order: the creation of the workspace
  (\<open>Workspace.create\<close>), the upload of the dataset (\<open>ds.upload\<close>), the acquisition of
  the compute target (the lookup, or the creation), the generation of the script
  (\<open>%%writefile\<close>), the submission of the estimator (\<open>exp.submit\<close>), the monitoring of the
  run, the retrieval of the metrics, the cleanup. At every point the steps made so far
  are an initial part of that sequence, so no step comes before its predecessor, and a
  run that completes has made all of them.
\<close>

theorem steps_follow_sequence:
  assumes "trace s0 = []"
  shows "prefix (steps (trace (snd (run_with E k z s0)))) sequence \<and>
         (fst (run_with E k z s0) = None \<longrightarrow> steps (trace (snd (run_with E k z s0))) = sequence)"
proof -
  obtain r s where rs: "run_with E k z s0 = (r, s)"
    by (cases "run_with E k z s0")
  have "reached 0 s0"
    by (simp add: reached_def steps_def assms List.map_filter_simps)
  with order_run_with [of E k z] have w: "wp (run_with E k z) (reached 8) in_sequence s0"
    by (simp add: tri_def)
  show ?thesis
  proof (cases r)
    case None
    with w rs have "steps (trace s) = sequence"
      by (simp add: wp_def reached_def sequence_def)
    with rs show ?thesis by simp
  next
    case (Some e)
    with w rs have "prefix (steps (trace s)) sequence"
      by (simp add: wp_def in_sequence_def)
    with rs Some show ?thesis by simp
  qed
qed

theorem steps_follow_sequence_witness:
  "trace start = [] \<and> fst (run_all quiet start) = None \<and>
   steps (trace (snd (run_all quiet start))) =
     [workspace_creation, dataset_upload, compute_target_acquisition, script_generation,
      estimator_submission, run_monitoring, metric_retrieval, temp_cleanup]"
proof -
  have t: "trace start = []" by (simp add: start_def fresh_kernel_def)
  have r: "fst (run_all quiet start) = None"
    unfolding run_all_with by (rule quiet_run_completes) (simp add: quiet_def)
  from steps_follow_sequence [OF t, of quiet 10 "''100k''"] r t show ?thesis
    by (simp add: sequence_def run_all_with)
qed

section \<open>What the notebook waits for\<close>




























section \<open>Local files\<close>







lemma strip_prefix_append: "strip_prefix xs (xs @ r) = Some r"
  by (induction xs) auto








































end
